theory Spec2Isabelle
  imports Complex_Main "HOL-Library.AList"
begin

text \<open>
  A model of the services of the school-management front end that decide who is signed
  in, which routes open, what the cache returns, what an HTTP failure becomes and when the
  loading indicator shows. Each service method is a function of the state it reads and
  returns the state it leaves; the clock, the HTTP exchange and the browser's decoding
  functions are arguments.
\<close>

section \<open>GradeService: the appreciation of a grade\<close>

text \<open>
  \<^verbatim>\<open>getAppreciation(grade: number): 'CA' | 'CANT' | 'NC'\<close> of
  \<^verbatim>\<open>src/app/services/api/grade.service.ts\<close>. A finite grade is a rational
  number (every finite double is one); the three string literals of the result type are
  the three constructors of \<open>appreciation\<close>.
\<close>

datatype appreciation = CA | CANT | NC

definition getAppreciation :: "rat \<Rightarrow> appreciation" where
  "getAppreciation grade =
     (if grade > 10 then CA
      else if grade \<ge> 7 \<and> grade \<le> 10 then CANT
      else NC)"

section \<open>LoadingService: the reference count of the loading indicator\<close>

text \<open>
  The two private fields of \<^verbatim>\<open>LoadingService\<close>
  (\<^verbatim>\<open>src/app/services/core/loading.service.ts\<close>): the current value of the
  \<^verbatim>\<open>BehaviorSubject<boolean>\<close> and the counter of requests in flight.
\<close>

record loading_state =
  loadingSubject :: bool
  loadingCounter :: int

definition loading_init :: loading_state where
  "loading_init = \<lparr>loadingSubject = False, loadingCounter = 0\<rparr>"

definition show_loading :: "loading_state \<Rightarrow> loading_state" where
  "show_loading s =
     (let s1 = s\<lparr>loadingCounter := loadingCounter s + 1\<rparr>
      in if loadingCounter s1 = 1 then s1\<lparr>loadingSubject := True\<rparr> else s1)"

definition hide_loading :: "loading_state \<Rightarrow> loading_state" where
  "hide_loading s =
     (let s1 = (if loadingCounter s > 0 then s\<lparr>loadingCounter := loadingCounter s - 1\<rparr> else s)
      in if loadingCounter s1 = 0 then s1\<lparr>loadingSubject := False\<rparr> else s1)"

definition isLoading :: "loading_state \<Rightarrow> bool" where
  "isLoading s = loadingSubject s"

definition getLoadingCount :: "loading_state \<Rightarrow> int" where
  "getLoadingCount s = loadingCounter s"

text \<open>A call of the service by one of its clients, and a sequence of calls run in order.\<close>

datatype loading_call = Show | Hide

fun loading_step :: "loading_state \<Rightarrow> loading_call \<Rightarrow> loading_state" where
  "loading_step s Show = show_loading s"
| "loading_step s Hide = hide_loading s"

definition loading_run :: "loading_call list \<Rightarrow> loading_state" where
  "loading_run cs = foldl loading_step loading_init cs"

text \<open>
  In no prefix of the sequence does \<^verbatim>\<open>hide()\<close> outnumber \<^verbatim>\<open>show()\<close>.
\<close>

definition hide_never_outnumbers :: "loading_call list \<Rightarrow> bool" where
  "hide_never_outnumbers cs =
     list_all (\<lambda>n. count_list (take n cs) Hide \<le> count_list (take n cs) Show) [0..<Suc (length cs)]"

section \<open>JavaScript values and the platform\<close>

text \<open>
  The values \<^verbatim>\<open>JSON.parse\<close> can produce, with \<^verbatim>\<open>undefined\<close> for a missing
  property. Numbers are exact rationals (a JSON number literal is one; \<^verbatim>\<open>NaN\<close> is
  never parsed). An object is the list of its own properties, each name once. Strings are
  lists of 8-bit characters: the binary string \<^verbatim>\<open>atob\<close> returns has exactly such code
  units, the accented letters of the messages below are single Latin-1 code units, and a
  token with any other code unit in its payload segment is one \<^verbatim>\<open>atob\<close> rejects.
\<close>

datatype jsval =
    JUndefined
  | JNull
  | JBool bool
  | JNum rat
  | JStr string
  | JArr "jsval list"
  | JObj "(string \<times> jsval) list"

text \<open>What a \<^verbatim>\<open>throw\<close> carries.\<close>

datatype js_error = TypeError | Error string

text \<open>
  The \<^verbatim>\<open>User\<close> of a login response (\<open>user_id\<close> is its \<^verbatim>\<open>id\<close>) with its optional
  \<^verbatim>\<open>student_info\<close> (\<open>info_id\<close> is its \<^verbatim>\<open>id\<close>). The optional \<^verbatim>\<open>teacher_info\<close> and
  the other members of \<^verbatim>\<open>StudentInfo\<close> are read by none of the methods below.
\<close>

record StudentInfo =
  info_id :: int
  matricule :: string
  full_name :: string
  class_id :: int

record User =
  user_id :: int
  username :: string
  email :: string
  role :: string
  created_at :: string
  is_active :: bool
  student_info :: "StudentInfo option"

text \<open>
  The functions of the browser and of the language that the services call and that are no
  code of this repository. Each is a parameter, \<open>None\<close> standing for the exception the
  function throws (\<^verbatim>\<open>InvalidCharacterError\<close>, \<^verbatim>\<open>URIError\<close>, \<^verbatim>\<open>SyntaxError\<close>).
  \<open>StringToNumber\<close> is the language's conversion of a non-empty string to a number
  (\<open>None\<close> is \<^verbatim>\<open>NaN\<close>); \<open>ObjectToNumber\<close> is \<^verbatim>\<open>ToPrimitive\<close> followed by
  \<^verbatim>\<open>ToNumber\<close> on an array or an object, which throws a \<^verbatim>\<open>TypeError\<close> when the object
  has no callable \<^verbatim>\<open>valueOf\<close> or \<^verbatim>\<open>toString\<close>. \<open>number_divide\<close> is the language's
  \<^verbatim>\<open>/\<close> on two numbers: the double nearest to the quotient, which need not be the
  quotient.
\<close>

record platform =
  atob :: "string \<Rightarrow> string option"
  decodeURIComponent :: "string \<Rightarrow> string option"
  JSON_parse :: "string \<Rightarrow> jsval option"
  StringToNumber :: "string \<Rightarrow> rat option"
  ObjectToNumber :: "jsval \<Rightarrow> js_error + rat option"
  number_divide :: "rat \<Rightarrow> rat \<Rightarrow> rat"

fun ToBoolean :: "jsval \<Rightarrow> bool" where
  "ToBoolean JUndefined = False"
| "ToBoolean JNull = False"
| "ToBoolean (JBool b) = b"
| "ToBoolean (JNum n) = (n \<noteq> 0)"
| "ToBoolean (JStr s) = (s \<noteq> [])"
| "ToBoolean (JArr xs) = True"
| "ToBoolean (JObj ps) = True"

text \<open>\<^verbatim>\<open>ToNumber\<close>: \<open>None\<close> is \<^verbatim>\<open>NaN\<close>; the empty string converts to 0.\<close>

fun ToNumber :: "platform \<Rightarrow> jsval \<Rightarrow> js_error + rat option" where
  "ToNumber P JUndefined = Inr None"
| "ToNumber P JNull = Inr (Some 0)"
| "ToNumber P (JBool b) = Inr (Some (if b then 1 else 0))"
| "ToNumber P (JNum n) = Inr (Some n)"
| "ToNumber P (JStr s) = Inr (if s = [] then Some 0 else StringToNumber P s)"
| "ToNumber P (JArr xs) = ObjectToNumber P (JArr xs)"
| "ToNumber P (JObj ps) = ObjectToNumber P (JObj ps)"

text \<open>
  \<^verbatim>\<open>x > t\<close> for a number \<open>t\<close>: \<open>x\<close> is converted to a number, and a comparison with
  \<^verbatim>\<open>NaN\<close> is false.
\<close>

definition js_greater :: "platform \<Rightarrow> jsval \<Rightarrow> rat \<Rightarrow> js_error + bool" where
  "js_greater P x t =
     (case ToNumber P x of
        Inl e \<Rightarrow> Inl e
      | Inr None \<Rightarrow> Inr False
      | Inr (Some n) \<Rightarrow> Inr (t < n))"

text \<open>
  \<^verbatim>\<open>payload.exp\<close>: reading a property of \<^verbatim>\<open>null\<close> or \<^verbatim>\<open>undefined\<close> throws; a
  number, a string, a boolean or an array has no property of that name.
\<close>

fun read_exp :: "jsval \<Rightarrow> js_error + jsval" where
  "read_exp JUndefined = Inl TypeError"
| "read_exp JNull = Inl TypeError"
| "read_exp (JObj ps) = Inr (case map_of ps ''exp'' of None \<Rightarrow> JUndefined | Some v \<Rightarrow> v)"
| "read_exp v = Inr JUndefined"

subsection \<open>String helpers of the language\<close>

text \<open>\<^verbatim>\<open>s.split(c)\<close> for a one-character separator; \<^verbatim>\<open>"".split(".")\<close> is \<^verbatim>\<open>[""]\<close>.\<close>

fun split_on :: "char \<Rightarrow> string \<Rightarrow> string list" where
  "split_on c [] = [[]]"
| "split_on c (x # xs) =
     (if x = c then [] # split_on c xs
      else (case split_on c xs of
              [] \<Rightarrow> [[x]]
            | y # ys \<Rightarrow> (x # y) # ys))"

text \<open>\<^verbatim>\<open>xs[i]\<close>, \<open>None\<close> for \<^verbatim>\<open>undefined\<close>.\<close>

definition index_opt :: "'a list \<Rightarrow> nat \<Rightarrow> 'a option" where
  "index_opt xs i = (if i < length xs then Some (xs ! i) else None)"

text \<open>\<^verbatim>\<open>s.replace(/a/g, b)\<close> for single characters.\<close>

definition replace_all :: "char \<Rightarrow> char \<Rightarrow> string \<Rightarrow> string" where
  "replace_all a b s = map (\<lambda>c. if c = a then b else c) s"

text \<open>The digit of a value below 16, as \<^verbatim>\<open>toString\<close> writes it.\<close>

definition digit_char :: "nat \<Rightarrow> char" where
  "digit_char d = (''0123456789abcdef'') ! d"

text \<open>\<^verbatim>\<open>n.toString(16)\<close> and \<^verbatim>\<open>n.toString()\<close> for a natural number.\<close>

fun toString16 :: "nat \<Rightarrow> string" where
  "toString16 n = (if n < 16 then [digit_char n] else toString16 (n div 16) @ [digit_char (n mod 16)])"

fun toString10 :: "nat \<Rightarrow> string" where
  "toString10 n = (if n < 10 then [digit_char n] else toString10 (n div 10) @ [digit_char (n mod 10)])"

text \<open>\<^verbatim>\<open>s.slice(-2)\<close>.\<close>

definition slice_last2 :: "string \<Rightarrow> string" where
  "slice_last2 s = drop (length s - 2) s"

section \<open>AuthService\<close>

text \<open>
  The state the service and the guards read and write: the two browser stores, the two
  \<^verbatim>\<open>BehaviorSubject\<close>s of \<^verbatim>\<open>AuthService\<close> (their current values) and the calls of
  \<^verbatim>\<open>router.navigate\<close>, oldest first. The subject of the authentication flag starts
  from the value of \<^verbatim>\<open>hasValidToken()\<close>, which need not be a boolean, so it holds a
  JavaScript value.
\<close>

record app_state =
  localStorage :: "string \<rightharpoonup> string"
  sessionStorage :: "string \<rightharpoonup> string"
  currentUserSubject :: "User option"
  isAuthenticatedSubject :: jsval
  navigations :: "string list"

definition TOKEN_KEY :: string where
  "TOKEN_KEY = ''school_auth_token''"

definition USER_KEY :: string where
  "USER_KEY = ''school_user_data''"

definition getToken :: "app_state \<Rightarrow> string option" where
  "getToken st = localStorage st TOKEN_KEY"

definition percent_encode :: "char \<Rightarrow> string" where
  "percent_encode c = ''%'' @ slice_last2 (''00'' @ toString16 (of_char c))"

text \<open>
  \<^verbatim>\<open>decodeJWT\<close>: every exception of the body, the \<^verbatim>\<open>TypeError\<close> of
  \<^verbatim>\<open>undefined.replace\<close> for a token with no second segment included, is caught and
  replaced by \<^verbatim>\<open>new Error('Token JWT invalide')\<close>.
\<close>

definition decodeJWT :: "platform \<Rightarrow> string \<Rightarrow> js_error + jsval" where
  "decodeJWT P token =
     (case index_opt (split_on CHR ''.'' token) 1 of
        None \<Rightarrow> Inl (Error ''Token JWT invalide'')
      | Some base64Url \<Rightarrow>
          (let base64 = replace_all CHR ''_'' CHR ''/'' (replace_all CHR ''-'' CHR ''+'' base64Url)
           in case atob P base64 of
                None \<Rightarrow> Inl (Error ''Token JWT invalide'')
              | Some bin \<Rightarrow>
                  (case decodeURIComponent P (concat (map percent_encode bin)) of
                     None \<Rightarrow> Inl (Error ''Token JWT invalide'')
                   | Some jsonPayload \<Rightarrow>
                       (case JSON_parse P jsonPayload of
                          None \<Rightarrow> Inl (Error ''Token JWT invalide'')
                        | Some payload \<Rightarrow> Inr payload))))"

text \<open>
  \<^verbatim>\<open>Date.now() / 1000\<close>: the clock, read in milliseconds since the epoch, divided as
  the language divides.
\<close>

definition currentTime :: "platform \<Rightarrow> nat \<Rightarrow> rat" where
  "currentTime P now = number_divide P (of_nat now) 1000"

text \<open>
  \<^verbatim>\<open>hasValidToken\<close>. The result is the value of
  \<^verbatim>\<open>payload.exp && payload.exp > currentTime\<close>: the comparison when \<^verbatim>\<open>payload.exp\<close> is
  truthy, \<^verbatim>\<open>payload.exp\<close> itself otherwise. Whatever the \<^verbatim>\<open>try\<close> block throws gives
  \<^verbatim>\<open>false\<close>.
\<close>

definition hasValidToken :: "platform \<Rightarrow> app_state \<Rightarrow> nat \<Rightarrow> jsval" where
  "hasValidToken P st now =
     (case getToken st of
        None \<Rightarrow> JBool False
      | Some token \<Rightarrow>
          if token = [] then JBool False
          else (case decodeJWT P token of
                  Inl e \<Rightarrow> JBool False
                | Inr payload \<Rightarrow>
                    (case read_exp payload of
                       Inl e \<Rightarrow> JBool False
                     | Inr exp_claim \<Rightarrow>
                         if ToBoolean exp_claim
                         then (case js_greater P exp_claim (currentTime P now) of
                                 Inl e \<Rightarrow> JBool False
                               | Inr b \<Rightarrow> JBool b)
                         else exp_claim)))"

definition isAuthenticated :: "platform \<Rightarrow> app_state \<Rightarrow> nat \<Rightarrow> jsval" where
  "isAuthenticated P st now = hasValidToken P st now"

definition getCurrentUser :: "app_state \<Rightarrow> User option" where
  "getCurrentUser st = currentUserSubject st"

definition getUserRole :: "app_state \<Rightarrow> string option" where
  "getUserRole st = (case getCurrentUser st of None \<Rightarrow> None | Some u \<Rightarrow> Some (role u))"

definition hasRole :: "app_state \<Rightarrow> string \<Rightarrow> bool" where
  "hasRole st r = (getUserRole st = Some r)"

definition hasAnyRole :: "app_state \<Rightarrow> string list \<Rightarrow> bool" where
  "hasAnyRole st roles =
     (case getUserRole st of
        None \<Rightarrow> False
      | Some userRole \<Rightarrow> if userRole \<noteq> [] then userRole \<in> set roles else False)"

definition isAdmin :: "app_state \<Rightarrow> bool" where
  "isAdmin st = hasRole st ''admin''"

definition setToken :: "string \<Rightarrow> app_state \<Rightarrow> app_state" where
  "setToken token st = st\<lparr>localStorage := (localStorage st)(TOKEN_KEY \<mapsto> token)\<rparr>"

text \<open>\<^verbatim>\<open>setUser\<close>; \<open>stringify\<close> is \<^verbatim>\<open>JSON.stringify\<close> on a user.\<close>

definition setUser :: "(User \<Rightarrow> string) \<Rightarrow> User \<Rightarrow> app_state \<Rightarrow> app_state" where
  "setUser stringify u st = st\<lparr>localStorage := (localStorage st)(USER_KEY \<mapsto> stringify u)\<rparr>"

definition navigate :: "string \<Rightarrow> app_state \<Rightarrow> app_state" where
  "navigate path st = st\<lparr>navigations := navigations st @ [path]\<rparr>"

subsection \<open>HTTP failures and their handlers\<close>

text \<open>
  An \<^verbatim>\<open>HttpErrorResponse\<close>: its \<^verbatim>\<open>error\<close> member is an \<^verbatim>\<open>ErrorEvent\<close> with a
  message (a failure on the client side) or the body the server sent, of which the handlers
  read only the \<^verbatim>\<open>error\<close> member, a string (\<open>None\<close> when there is no body or no
  such member).
\<close>

datatype http_error_body = ErrorEvent string | ServerBody "string option"

record HttpErrorResponse =
  error :: http_error_body
  status :: nat
  message :: string

text \<open>What a subscriber receives: a value, or what was thrown.\<close>

datatype thrown = NewError string | Rethrown HttpErrorResponse

datatype 'a http_outcome = Success 'a | Failure HttpErrorResponse

record LoginResponse =
  access_token :: string
  user :: User

definition AuthService_handleError :: "HttpErrorResponse \<Rightarrow> thrown" where
  "AuthService_handleError err =
     NewError
       (case error err of
          ErrorEvent m \<Rightarrow> ''Erreur: '' @ m
        | ServerBody b \<Rightarrow>
            if status err = 401 then ''Identifiants invalides''
            else if status err = 403 then ''Acc'' @ [CHR 0xE8] @ ''s non autoris'' @ [CHR 0xE9]
            else if status err = 500 then ''Erreur serveur''
            else (let fallback = ''Erreur '' @ toString10 (status err) @ '': '' @ message err
                  in case b of
                       None \<Rightarrow> fallback
                     | Some m \<Rightarrow> if m \<noteq> [] then m else fallback))"

text \<open>
  \<^verbatim>\<open>login\<close>, given how the request ended: \<^verbatim>\<open>tap\<close> runs on a response only,
  \<^verbatim>\<open>catchError\<close> on a failure only.
\<close>

definition login ::
  "(User \<Rightarrow> string) \<Rightarrow> LoginResponse http_outcome \<Rightarrow> app_state \<Rightarrow> app_state \<times> (thrown + LoginResponse)" where
  "login stringify outcome st =
     (case outcome of
        Success response \<Rightarrow>
          (let st1 = setToken (access_token response) st;
               st2 = setUser stringify (user response) st1;
               st3 = st2\<lparr>currentUserSubject := Some (user response)\<rparr>;
               st4 = st3\<lparr>isAuthenticatedSubject := JBool True\<rparr>
           in (st4, Inr response))
      | Failure err \<Rightarrow> (st, Inl (AuthService_handleError err)))"

subsection \<open>The handlers of the resource clients\<close>

text \<open>
  The handlers of the resource clients take \<^verbatim>\<open>error: any\<close>: the
  \<^verbatim>\<open>HttpErrorResponse\<close> of a failed request, or the \<^verbatim>\<open>Error\<close> that the handler of
  an inner method has thrown already. An error value is what the handlers read of it:
  \<^verbatim>\<open>error.error\<close>, \<^verbatim>\<open>error.status\<close> and \<^verbatim>\<open>error.message\<close>, \<open>None\<close> for
  \<^verbatim>\<open>undefined\<close>. \<^verbatim>\<open>error.error\<close> is missing, or the body as text, or an
  \<^verbatim>\<open>ErrorEvent\<close> with its message (and no \<^verbatim>\<open>error\<close> of its own), or a body object
  with its \<^verbatim>\<open>error\<close> and \<^verbatim>\<open>message\<close> members, strings when present.
\<close>

datatype error_payload =
    NoPayload
  | TextPayload string
  | EventPayload string
  | BodyPayload "string option" "string option"

record error_value =
  err_payload :: error_payload
  err_status :: "nat option"
  err_message :: "string option"

text \<open>
  What a method of a resource client hands to the \<^verbatim>\<open>error\<close> callback of its
  subscriber: a new \<^verbatim>\<open>Error\<close> with its message, or the value the method had caught,
  passed on as it was.
\<close>

datatype client_error = ErrorObject string | Passed error_value

text \<open>
  The same value as a handler reads it: \<^verbatim>\<open>new Error(m)\<close> has the message \<open>m\<close> and
  neither \<^verbatim>\<open>error\<close> nor \<^verbatim>\<open>status\<close>.
\<close>

fun as_value :: "client_error \<Rightarrow> error_value" where
  "as_value (ErrorObject m) = \<lparr>err_payload = NoPayload, err_status = None, err_message = Some m\<rparr>"
| "as_value (Passed v) = v"

text \<open>\<^verbatim>\<open>a || d\<close> for a string \<open>a\<close> that may be missing: the empty string is falsy.\<close>

definition or_else :: "string option \<Rightarrow> string \<Rightarrow> string" where
  "or_else a d = (case a of None \<Rightarrow> d | Some m \<Rightarrow> if m \<noteq> [] then m else d)"

text \<open>\<^verbatim>\<open>error.error?.error\<close> and \<^verbatim>\<open>error.error?.message\<close>.\<close>

fun payload_error :: "error_payload \<Rightarrow> string option" where
  "payload_error (BodyPayload e m) = e"
| "payload_error p = None"

fun payload_message :: "error_payload \<Rightarrow> string option" where
  "payload_message (BodyPayload e m) = m"
| "payload_message (EventPayload m) = Some m"
| "payload_message p = None"




text \<open>
  The handler that \<^verbatim>\<open>TeacherService\<close>, \<^verbatim>\<open>StudentService\<close> and the
  \<^verbatim>\<open>SubjectService\<close> of \<^verbatim>\<open>src/app/services/api/subject.service.ts\<close> each declare,
  with the same body: the first truthy one of \<^verbatim>\<open>error.error?.error\<close>,
  \<^verbatim>\<open>error.error?.message\<close> and \<^verbatim>\<open>error.message\<close>, or the default.
\<close>

definition message_of_error :: "error_value \<Rightarrow> string" where
  "message_of_error err =
     or_else (payload_error (err_payload err))
       (or_else (payload_message (err_payload err))
          (or_else (err_message err) ''Une erreur est survenue''))"









subsection \<open>The pipes of the resource clients\<close>


























section \<open>The route guards\<close>

text \<open>
  \<^verbatim>\<open>route.data\<close>, of which the guards read \<^verbatim>\<open>data['roles']\<close> and
  \<^verbatim>\<open>data['role']\<close>; \<open>None\<close> is \<^verbatim>\<open>undefined\<close>. A class guard returns an
  observable that emits one boolean; the model returns that boolean, with the state the
  guard leaves.
\<close>

record route_data =
  data_roles :: "string list option"
  data_role :: "string option"

text \<open>
  \<^verbatim>\<open>AuthGuard.checkAuth(url?)\<close> reads the current value of \<^verbatim>\<open>isAuthenticated$\<close>
  (\<^verbatim>\<open>take(1)\<close> of a \<^verbatim>\<open>BehaviorSubject\<close>). \<^verbatim>\<open>canActivate\<close> passes \<^verbatim>\<open>state.url\<close>,
  \<^verbatim>\<open>canLoad\<close> passes nothing.
\<close>

definition AuthGuard_checkAuth :: "string option \<Rightarrow> app_state \<Rightarrow> app_state \<times> bool" where
  "AuthGuard_checkAuth url st =
     (if ToBoolean (isAuthenticatedSubject st) then (st, True)
      else (let st1 = (case url of
                         None \<Rightarrow> st
                       | Some u \<Rightarrow>
                           if u \<noteq> [] then st\<lparr>sessionStorage := (sessionStorage st)(''redirectUrl'' \<mapsto> u)\<rparr>
                           else st)
            in (navigate ''/login'' st1, False)))"

definition AuthGuard_canActivate :: "string \<Rightarrow> app_state \<Rightarrow> app_state \<times> bool" where
  "AuthGuard_canActivate url st = AuthGuard_checkAuth (Some url) st"

definition AuthGuard_canLoad :: "app_state \<Rightarrow> app_state \<times> bool" where
  "AuthGuard_canLoad st = AuthGuard_checkAuth None st"

definition handleUnauthorized :: "app_state \<Rightarrow> app_state" where
  "handleUnauthorized st =
     (let userRole = getUserRole st
      in if userRole = Some ''admin'' then navigate ''/admin/dashboard'' st
         else if userRole = Some ''teacher'' then navigate ''/teacher/dashboard'' st
         else if userRole = Some ''student'' then navigate ''/student/dashboard'' st
         else navigate ''/unauthorized'' st)"

text \<open>\<^verbatim>\<open>RoleGuard.checkRole(route, url)\<close>. An array is truthy even when empty.\<close>

definition RoleGuard_checkRole :: "route_data \<Rightarrow> string \<Rightarrow> app_state \<Rightarrow> app_state \<times> bool" where
  "RoleGuard_checkRole rd url st =
     (if \<not> ToBoolean (isAuthenticatedSubject st)
      then (navigate ''/login'' (st\<lparr>sessionStorage := (sessionStorage st)(''redirectUrl'' \<mapsto> url)\<rparr>), False)
      else
        (let allowedRoles = data_roles rd;
             requiredRole = (case data_role rd of None \<Rightarrow> None | Some r \<Rightarrow> if r \<noteq> [] then Some r else None)
         in if allowedRoles = None \<and> requiredRole = None then (st, True)
            else if getCurrentUser st = None then (handleUnauthorized st, False)
            else
              (let hasAccess0 = False;
                   hasAccess1 = (case allowedRoles of
                                   None \<Rightarrow> hasAccess0
                                 | Some rs \<Rightarrow> if length rs > 0 then hasAnyRole st rs else hasAccess0);
                   hasAccess2 = (case requiredRole of
                                   None \<Rightarrow> hasAccess1
                                 | Some r \<Rightarrow> hasRole st r)
               in if \<not> hasAccess2 then (handleUnauthorized st, False) else (st, True))))"

definition RoleGuard_canActivate :: "route_data \<Rightarrow> string \<Rightarrow> app_state \<Rightarrow> app_state \<times> bool" where
  "RoleGuard_canActivate rd url st = RoleGuard_checkRole rd url st"

text \<open>
  The functional guard \<^verbatim>\<open>authGuard\<close>, the one the route table of
  \<^verbatim>\<open>src/app/app.routes.ts\<close> installs on \<^verbatim>\<open>admin\<close>, \<^verbatim>\<open>teacher\<close> and
  \<^verbatim>\<open>student\<close>. It calls \<^verbatim>\<open>isAuthenticated()\<close>, which reads the token and the clock.
  \<^verbatim>\<open>expectedRoles.includes\<close> throws when the route declares no \<^verbatim>\<open>roles\<close>.
\<close>

definition authGuard :: "platform \<Rightarrow> nat \<Rightarrow> route_data \<Rightarrow> string \<Rightarrow> app_state \<Rightarrow> app_state \<times> (js_error + bool)" where
  "authGuard P now rd url st =
     (let expectedRoles = data_roles rd
      in if \<not> ToBoolean (isAuthenticated P st now) then (navigate ''/login'' st, Inr False)
         else (let userRole = getUserRole st
               in case expectedRoles of
                    None \<Rightarrow> (st, Inl TypeError)
                  | Some rs \<Rightarrow>
                      if (case userRole of None \<Rightarrow> False | Some r \<Rightarrow> r \<in> set rs) then (st, Inr True)
                      else (navigate ''/login'' st, Inr False)))"

text \<open>
  \<^verbatim>\<open>AdminGuard\<close>, \<^verbatim>\<open>TeacherGuard\<close> and \<^verbatim>\<open>StudentGuard\<close>: the same test of
  \<^verbatim>\<open>isAuthenticated$\<close>, then a test of the role that redirects to
  \<^verbatim>\<open>/unauthorized\<close>.
\<close>

definition AdminGuard_canActivate :: "string \<Rightarrow> app_state \<Rightarrow> app_state \<times> bool" where
  "AdminGuard_canActivate url st =
     (if \<not> ToBoolean (isAuthenticatedSubject st)
      then (navigate ''/login'' (st\<lparr>sessionStorage := (sessionStorage st)(''redirectUrl'' \<mapsto> url)\<rparr>), False)
      else if \<not> isAdmin st then (navigate ''/unauthorized'' st, False)
      else (st, True))"

definition TeacherGuard_canActivate :: "string \<Rightarrow> app_state \<Rightarrow> app_state \<times> bool" where
  "TeacherGuard_canActivate url st =
     (if \<not> ToBoolean (isAuthenticatedSubject st)
      then (navigate ''/login'' (st\<lparr>sessionStorage := (sessionStorage st)(''redirectUrl'' \<mapsto> url)\<rparr>), False)
      else if \<not> hasAnyRole st [''admin'', ''teacher''] then (navigate ''/unauthorized'' st, False)
      else (st, True))"

definition StudentGuard_canActivate :: "string \<Rightarrow> app_state \<Rightarrow> app_state \<times> bool" where
  "StudentGuard_canActivate url st =
     (if \<not> ToBoolean (isAuthenticatedSubject st)
      then (navigate ''/login'' (st\<lparr>sessionStorage := (sessionStorage st)(''redirectUrl'' \<mapsto> url)\<rparr>), False)
      else if \<not> hasAnyRole st [''admin'', ''student''] then (navigate ''/unauthorized'' st, False)
      else (st, True))"

text \<open>
  \<^verbatim>\<open>LoginGuard\<close>, on the login page: a session already authenticated is sent to its
  dashboard, any other is let in.
\<close>

definition redirectToDashboard :: "app_state \<Rightarrow> app_state" where
  "redirectToDashboard st =
     (let userRole = getUserRole st
      in if userRole = Some ''admin'' then navigate ''/admin/dashboard'' st
         else if userRole = Some ''teacher'' then navigate ''/teacher/dashboard'' st
         else if userRole = Some ''student'' then navigate ''/student/dashboard'' st
         else navigate ''/dashboard'' st)"

definition LoginGuard_canActivate :: "app_state \<Rightarrow> app_state \<times> bool" where
  "LoginGuard_canActivate st =
     (if ToBoolean (isAuthenticatedSubject st) then (redirectToDashboard st, False)
      else (st, True))"

text \<open>
  \<^verbatim>\<open>StudentDataGuard\<close> reads neither \<^verbatim>\<open>isAuthenticated$\<close> nor the token: it parses
  the student's id from \<^verbatim>\<open>route.params\<close> (\<open>parseInt\<close> is the language's, \<open>None\<close> for
  \<^verbatim>\<open>NaN\<close>, also on \<^verbatim>\<open>undefined\<close>) and asks \<^verbatim>\<open>canAccessStudent\<close>, which decides on the
  current user.
\<close>

record route_params =
  params_id :: "string option"
  params_studentId :: "string option"

definition getStudentInfo :: "app_state \<Rightarrow> StudentInfo option" where
  "getStudentInfo st = (case getCurrentUser st of None \<Rightarrow> None | Some u \<Rightarrow> student_info u)"

definition canAccessStudent :: "app_state \<Rightarrow> int \<Rightarrow> bool" where
  "canAccessStudent st studentId =
     (case getCurrentUser st of
        None \<Rightarrow> False
      | Some u \<Rightarrow>
          if role u = ''admin'' then True
          else if role u = ''student''
            then (case getStudentInfo st of None \<Rightarrow> False | Some info \<Rightarrow> info_id info = studentId)
          else if role u = ''teacher'' then True
          else False)"

definition StudentDataGuard_canActivate ::
  "(string option \<Rightarrow> int option) \<Rightarrow> route_params \<Rightarrow> app_state \<Rightarrow> app_state \<times> bool" where
  "StudentDataGuard_canActivate parseInt params st =
     (let studentId = parseInt (case params_id params of
                                  None \<Rightarrow> params_studentId params
                                | Some s \<Rightarrow> if s \<noteq> [] then Some s else params_studentId params)
      in case studentId of
           None \<Rightarrow> (navigate ''/unauthorized'' st, False)
         | Some n \<Rightarrow>
             if n = 0 then (navigate ''/unauthorized'' st, False)
             else if \<not> canAccessStudent st n then (navigate ''/unauthorized'' st, False)
             else (st, True))"

section \<open>CacheService\<close>

record CacheItem =
  data :: jsval
  timestamp :: int
  expiry :: "int option"
  key :: string

record CacheOptions =
  ttl :: "int option"
  forceRefresh :: "bool option"
  persistent :: "bool option"

text \<open>
  The two \<^verbatim>\<open>Map\<close>s of the service, in insertion order. A \<^verbatim>\<open>BehaviorSubject\<close> is the
  list of the values it has emitted, oldest first: the value it was built with, then each
  \<^verbatim>\<open>next\<close>. Every subscriber of \<^verbatim>\<open>watch(key)\<close> receives each \<^verbatim>\<open>next\<close> of the
  subject stored under \<open>key\<close>.
\<close>

record cache_state =
  cache :: "(string \<times> CacheItem) list"
  cacheSubjects :: "(string \<times> jsval list) list"

definition defaultTTL :: int where
  "defaultTTL = 5 * 60 * 1000"

text \<open>\<^verbatim>\<open>isExpired\<close>: \<^verbatim>\<open>!item.expiry\<close> holds for \<^verbatim>\<open>undefined\<close> and for 0.\<close>

definition isExpired :: "nat \<Rightarrow> CacheItem \<Rightarrow> bool" where
  "isExpired now item =
     (case expiry item of
        None \<Rightarrow> False
      | Some e \<Rightarrow> if e = 0 then False else int now > e)"

text \<open>\<^verbatim>\<open>this.cacheSubjects.get(key)!.next(v)\<close> when the subject exists.\<close>

definition notify :: "string \<Rightarrow> jsval \<Rightarrow> (string \<times> jsval list) list \<Rightarrow> (string \<times> jsval list) list" where
  "notify k v subjects =
     (case map_of subjects k of
        None \<Rightarrow> subjects
      | Some emitted \<Rightarrow> AList.update k (emitted @ [v]) subjects)"

definition delete_cache :: "string \<Rightarrow> cache_state \<Rightarrow> cache_state \<times> bool" where
  "delete_cache k st =
     (let deleted = (map_of (cache st) k \<noteq> None);
          st1 = st\<lparr>cache := AList.delete k (cache st)\<rparr>
      in if deleted then (st1\<lparr>cacheSubjects := notify k JNull (cacheSubjects st1)\<rparr>, deleted)
         else (st1, deleted))"

definition get_cache :: "nat \<Rightarrow> string \<Rightarrow> cache_state \<Rightarrow> cache_state \<times> jsval" where
  "get_cache now k st =
     (case map_of (cache st) k of
        None \<Rightarrow> (st, JNull)
      | Some item \<Rightarrow>
          if isExpired now item then (fst (delete_cache k st), JNull)
          else (st, data item))"

text \<open>
  The first line of \<^verbatim>\<open>set\<close>, \<^verbatim>\<open>options.ttl || this.defaultTTL\<close>: the default for
  a missing \<^verbatim>\<open>ttl\<close> and for 0.
\<close>

definition effective_ttl :: "CacheOptions \<Rightarrow> int" where
  "effective_ttl options =
     (case ttl options of None \<Rightarrow> defaultTTL | Some t \<Rightarrow> if t \<noteq> 0 then t else defaultTTL)"

text \<open>\<^verbatim>\<open>set\<close>. Both readings of the clock in the body are the one instant \<open>now\<close>.\<close>

definition set_cache :: "nat \<Rightarrow> string \<Rightarrow> jsval \<Rightarrow> CacheOptions \<Rightarrow> cache_state \<Rightarrow> cache_state" where
  "set_cache now k v options st =
     (let ttl_ms = effective_ttl options;
          expiry_ms = (if ttl_ms > 0 then Some (int now + ttl_ms) else None);
          item = \<lparr>data = v, timestamp = int now, expiry = expiry_ms, key = k\<rparr>
      in st\<lparr>cache := AList.update k item (cache st),
            cacheSubjects := notify k v (cacheSubjects st)\<rparr>)"

definition has_cache :: "nat \<Rightarrow> string \<Rightarrow> cache_state \<Rightarrow> cache_state \<times> bool" where
  "has_cache now k st =
     (case map_of (cache st) k of
        None \<Rightarrow> (st, False)
      | Some item \<Rightarrow>
          if isExpired now item then (fst (delete_cache k st), False)
          else (st, True))"

definition clear_cache :: "cache_state \<Rightarrow> cache_state" where
  "clear_cache st =
     st\<lparr>cache := [], cacheSubjects := map (\<lambda>(k, emitted). (k, emitted @ [JNull])) (cacheSubjects st)\<rparr>"

definition keys :: "cache_state \<Rightarrow> string list" where
  "keys st = map fst (cache st)"

text \<open>
  \<^verbatim>\<open>watch\<close>: the subject of the key is created on the first call, with the value
  \<^verbatim>\<open>get(key)\<close> returns then.
\<close>

definition watch :: "nat \<Rightarrow> string \<Rightarrow> cache_state \<Rightarrow> cache_state" where
  "watch now k st =
     (if map_of (cacheSubjects st) k = None
      then (let (st1, currentValue) = get_cache now k st
            in st1\<lparr>cacheSubjects := AList.update k [currentValue] (cacheSubjects st1)\<rparr>)
      else st)"

text \<open>What the subscribers of \<^verbatim>\<open>watch(key)\<close> have been sent, when the subject exists.\<close>

definition emissions :: "cache_state \<Rightarrow> string \<Rightarrow> jsval list option" where
  "emissions st k = map_of (cacheSubjects st) k"

section \<open>Sample inputs\<close>

text \<open>
  Four tokens, and a platform that is the browser's on them: \<^verbatim>\<open>atob\<close>,
  \<^verbatim>\<open>decodeURIComponent\<close> and \<^verbatim>\<open>JSON.parse\<close> at the four payloads, the
  conversion of the string \<^verbatim>\<open>99999999999\<close> to a number, and the division of the two
  clock readings used, 1000000 and 3000000 ms, by 1000 (both quotients are doubles). The
  middle segment of each token is the base64url text of the payload: \<^verbatim>\<open>{"exp":2000}\<close>,
  \<^verbatim>\<open>{"exp":"99999999999"}\<close> (the expiry as a string), \<^verbatim>\<open>{"sub":1}\<close> (no expiry) and
  \<^verbatim>\<open>{"exp":0}\<close>. On any other text the sample \<^verbatim>\<open>atob\<close> fails, as the browser's
  does on the one-letter segment \<^verbatim>\<open>b\<close> of the token \<^verbatim>\<open>a.b.c\<close>.
\<close>

definition quoted :: "string \<Rightarrow> string" where
  "quoted s = [CHR 0x22] @ s @ [CHR 0x22]"

definition json_exp_2000 :: string where
  "json_exp_2000 = ''{'' @ quoted ''exp'' @ '':2000}''"

definition json_exp_string :: string where
  "json_exp_string = ''{'' @ quoted ''exp'' @ '':'' @ quoted ''99999999999'' @ ''}''"

definition json_no_exp :: string where
  "json_no_exp = ''{'' @ quoted ''sub'' @ '':1}''"

definition json_exp_0 :: string where
  "json_exp_0 = ''{'' @ quoted ''exp'' @ '':0}''"

definition token_exp_2000 :: string where
  "token_exp_2000 = ''eyJhbGciOiJIUzI1NiJ9.eyJleHAiOjIwMDB9.c2ln''"

definition token_exp_string :: string where
  "token_exp_string = ''eyJhbGciOiJIUzI1NiJ9.eyJleHAiOiI5OTk5OTk5OTk5OSJ9.c2ln''"

definition token_no_exp :: string where
  "token_no_exp = ''eyJhbGciOiJIUzI1NiJ9.eyJzdWIiOjF9.c2ln''"

definition token_exp_0 :: string where
  "token_exp_0 = ''eyJhbGciOiJIUzI1NiJ9.eyJleHAiOjB9.c2ln''"

definition sample_platform :: platform where
  "sample_platform =
     \<lparr>atob = (\<lambda>s. if s = ''eyJleHAiOjIwMDB9'' then Some json_exp_2000
                 else if s = ''eyJleHAiOiI5OTk5OTk5OTk5OSJ9'' then Some json_exp_string
                 else if s = ''eyJzdWIiOjF9'' then Some json_no_exp
                 else if s = ''eyJleHAiOjB9'' then Some json_exp_0
                 else None),
      decodeURIComponent =
        (\<lambda>s. if s = ''%7b%22%65%78%70%22%3a%32%30%30%30%7d'' then Some json_exp_2000
             else if s = ''%7b%22%65%78%70%22%3a%22%39%39%39%39%39%39%39%39%39%39%39%22%7d''
               then Some json_exp_string
             else if s = ''%7b%22%73%75%62%22%3a%31%7d'' then Some json_no_exp
             else if s = ''%7b%22%65%78%70%22%3a%30%7d'' then Some json_exp_0
             else None),
      JSON_parse =
        (\<lambda>s. if s = json_exp_2000 then Some (JObj [(''exp'', JNum 2000)])
             else if s = json_exp_string then Some (JObj [(''exp'', JStr ''99999999999'')])
             else if s = json_no_exp then Some (JObj [(''sub'', JNum 1)])
             else if s = json_exp_0 then Some (JObj [(''exp'', JNum 0)])
             else None),
      StringToNumber = (\<lambda>s. if s = ''99999999999'' then Some 99999999999 else None),
      ObjectToNumber = (\<lambda>v. Inr None),
      number_divide = (\<lambda>a b. if a = 1000000 \<and> b = 1000 then 1000
                             else if a = 3000000 \<and> b = 1000 then 3000
                             else a / b)\<rparr>"

text \<open>A browser whose local storage holds the given token, or none, and nothing else.\<close>

definition session_with :: "string option \<Rightarrow> User option \<Rightarrow> jsval \<Rightarrow> app_state" where
  "session_with token u flag =
     \<lparr>localStorage = (\<lambda>k. if k = TOKEN_KEY then token else None),
      sessionStorage = Map.empty,
      currentUserSubject = u,
      isAuthenticatedSubject = flag,
      navigations = []\<rparr>"

definition sample_student :: User where
  "sample_student =
     \<lparr>user_id = 7, username = ''awa'', email = ''awa@school.example'', role = ''student'',
      created_at = ''2024-09-01'', is_active = True,
      student_info = Some \<lparr>info_id = 12, matricule = ''ETU012'', full_name = ''Awa Example'', class_id = 3\<rparr>\<rparr>"

section \<open>C10: the appreciation thresholds\<close>

text \<open>
  C10. For every grade \<open>g\<close>, \<open>getAppreciation g\<close> is \<open>CA\<close> exactly when \<open>g > 10\<close>,
  \<open>CANT\<close> exactly when \<open>7 \<le> g \<le> 10\<close>, and \<open>NC\<close> exactly when \<open>g < 7\<close> (negative
  grades included); the boundary grade 10 is \<open>CANT\<close>, not \<open>CA\<close>.
\<close>

theorem getAppreciation_thresholds:
  "(getAppreciation g = CA) = (g > 10) \<and>
   (getAppreciation g = CANT) = (7 \<le> g \<and> g \<le> 10) \<and>
   (getAppreciation g = NC) = (g < 7) \<and>
   getAppreciation 10 = CANT \<and> getAppreciation 7 = CANT \<and> getAppreciation (- 1) = NC"
  by (auto simp: getAppreciation_def)

section \<open>C9: the loading indicator follows the reference count\<close>

lemma loading_run_snoc: "loading_run (cs @ [c]) = loading_step (loading_run cs) c"
  by (simp add: loading_run_def)

lemma loading_step_invariant:
  "loadingCounter s \<ge> 0 \<Longrightarrow> loadingSubject s = (loadingCounter s > 0) \<Longrightarrow>
   loadingCounter (loading_step s c) \<ge> 0 \<and>
   loadingSubject (loading_step s c) = (loadingCounter (loading_step s c) > 0)"
  by (cases c) (auto simp: show_loading_def hide_loading_def Let_def)

text \<open>After any sequence of calls the counter is not negative and the indicator is on
  exactly when the counter is positive.\<close>

lemma loading_run_invariant:
  "loadingCounter (loading_run cs) \<ge> 0 \<and>
   loadingSubject (loading_run cs) = (loadingCounter (loading_run cs) > 0)"
proof (induction cs rule: rev_induct)
  case Nil
  show ?case by (simp add: loading_run_def loading_init_def)
next
  case (snoc c cs)
  then show ?case
    using loading_step_invariant [of "loading_run cs" c] by (simp add: loading_run_snoc)
qed

lemma hide_never_outnumbers_iff:
  "hide_never_outnumbers cs =
     (\<forall>n \<le> length cs. count_list (take n cs) Hide \<le> count_list (take n cs) Show)"
  by (auto simp: hide_never_outnumbers_def list_all_iff less_Suc_eq_le)

lemma hide_never_outnumbers_take:
  "hide_never_outnumbers cs \<Longrightarrow> n \<le> length cs \<Longrightarrow> hide_never_outnumbers (take n cs)"
  by (auto simp: hide_never_outnumbers_iff min_def)

lemma hide_never_outnumbers_butlast:
  "hide_never_outnumbers (cs @ [c]) \<Longrightarrow> hide_never_outnumbers cs"
  using hide_never_outnumbers_take [of "cs @ [c]" "length cs"] by simp

lemma hide_never_outnumbers_whole:
  "hide_never_outnumbers cs \<Longrightarrow> count_list cs Hide \<le> count_list cs Show"
  by (auto simp: hide_never_outnumbers_iff dest: spec [of _ "length cs"])

text \<open>On such a sequence the counter is the number of requests still in flight.\<close>

lemma loading_counter_balanced:
  "hide_never_outnumbers cs \<Longrightarrow>
   loadingCounter (loading_run cs) = int (count_list cs Show) - int (count_list cs Hide)"
proof (induction cs rule: rev_induct)
  case Nil
  show ?case by (simp add: loading_run_def loading_init_def)
next
  case (snoc c cs)
  have bal: "hide_never_outnumbers cs"
    using snoc.prems by (rule hide_never_outnumbers_butlast)
  have ih: "loadingCounter (loading_run cs) = int (count_list cs Show) - int (count_list cs Hide)"
    using snoc.IH bal by simp
  have le: "count_list (cs @ [c]) Hide \<le> count_list (cs @ [c]) Show"
    using snoc.prems by (rule hide_never_outnumbers_whole)
  show ?case
  proof (cases c)
    case Show
    then show ?thesis using ih by (simp add: loading_run_snoc show_loading_def Let_def)
  next
    case Hide
    then have "count_list cs Hide < count_list cs Show" using le by simp
    then show ?thesis using ih Hide by (simp add: loading_run_snoc hide_loading_def Let_def)
  qed
qed

text \<open>
  C9. Start from counter 0 and indicator off, and run a finite sequence of \<^verbatim>\<open>show()\<close>
  and \<^verbatim>\<open>hide()\<close> calls in no prefix of which \<^verbatim>\<open>hide()\<close> outnumbers \<^verbatim>\<open>show()\<close>.
  After every call (after the first \<open>n\<close> calls, for every \<open>n\<close>) \<^verbatim>\<open>isLoading()\<close> equals
  \<open>counter > 0\<close>, and the counter is the number of \<^verbatim>\<open>show()\<close> calls not yet matched by
  a \<^verbatim>\<open>hide()\<close>: the indicator stays on until the last matching \<^verbatim>\<open>hide()\<close>.
\<close>

theorem loading_reference_count:
  assumes "hide_never_outnumbers cs" and "n \<le> length cs"
  shows "isLoading (loading_run (take n cs)) = (getLoadingCount (loading_run (take n cs)) > 0) \<and>
         getLoadingCount (loading_run (take n cs)) =
           int (count_list (take n cs) Show) - int (count_list (take n cs) Hide)"
  using loading_run_invariant [of "take n cs"]
        loading_counter_balanced [OF hide_never_outnumbers_take [OF assms]]
  by (simp add: isLoading_def getLoadingCount_def)

theorem loading_reference_count_witness:
  "hide_never_outnumbers [Show, Show, Hide, Hide] \<and>
   isLoading (loading_run [Show]) \<and> isLoading (loading_run [Show, Show]) \<and>
   isLoading (loading_run [Show, Show, Hide]) \<and> \<not> isLoading (loading_run [Show, Show, Hide, Hide]) \<and>
   getLoadingCount (loading_run [Show, Show, Hide]) = 1"
proof -
  have h: "hide_never_outnumbers [Show, Show, Hide, Hide]"
    by (simp add: hide_never_outnumbers_def upt_rec)
  show ?thesis
    using h loading_reference_count [OF h, of 1] loading_reference_count [OF h, of 2]
      loading_reference_count [OF h, of 3] loading_reference_count [OF h, of 4]
    by (simp add: numeral_2_eq_2 numeral_3_eq_3 eval_nat_numeral)
qed

section \<open>Session and token validation\<close>

lemma decodeJWT_empty: "decodeJWT P [] = Inl (Error ''Token JWT invalide'')"
  by (simp add: decodeJWT_def index_opt_def)

lemma decodeJWT_error: "decodeJWT P token = Inl e \<Longrightarrow> e = Error ''Token JWT invalide''"
  by (auto simp: decodeJWT_def Let_def split: option.splits)

lemma decodeJWT_no_segment:
  "index_opt (split_on CHR ''.'' token) 1 = None \<Longrightarrow> decodeJWT P token = Inl (Error ''Token JWT invalide'')"
  by (simp add: decodeJWT_def)

lemma decodeJWT_atob_fails:
  "index_opt (split_on CHR ''.'' token) 1 = Some seg \<Longrightarrow>
   atob P (replace_all CHR ''_'' CHR ''/'' (replace_all CHR ''-'' CHR ''+'' seg)) = None \<Longrightarrow>
   decodeJWT P token = Inl (Error ''Token JWT invalide'')"
  by (simp add: decodeJWT_def)

lemma decodeJWT_decodeURIComponent_fails:
  "index_opt (split_on CHR ''.'' token) 1 = Some seg \<Longrightarrow>
   atob P (replace_all CHR ''_'' CHR ''/'' (replace_all CHR ''-'' CHR ''+'' seg)) = Some bin \<Longrightarrow>
   decodeURIComponent P (concat (map percent_encode bin)) = None \<Longrightarrow>
   decodeJWT P token = Inl (Error ''Token JWT invalide'')"
  by (simp add: decodeJWT_def)

lemma decodeJWT_JSON_parse_fails:
  "index_opt (split_on CHR ''.'' token) 1 = Some seg \<Longrightarrow>
   atob P (replace_all CHR ''_'' CHR ''/'' (replace_all CHR ''-'' CHR ''+'' seg)) = Some bin \<Longrightarrow>
   decodeURIComponent P (concat (map percent_encode bin)) = Some jsonPayload \<Longrightarrow>
   JSON_parse P jsonPayload = None \<Longrightarrow>
   decodeJWT P token = Inl (Error ''Token JWT invalide'')"
  by (simp add: decodeJWT_def)

lemma decodeJWT_succeeds:
  "index_opt (split_on CHR ''.'' token) 1 = Some seg \<Longrightarrow>
   atob P (replace_all CHR ''_'' CHR ''/'' (replace_all CHR ''-'' CHR ''+'' seg)) = Some bin \<Longrightarrow>
   decodeURIComponent P (concat (map percent_encode bin)) = Some jsonPayload \<Longrightarrow>
   JSON_parse P jsonPayload = Some payload \<Longrightarrow>
   decodeJWT P token = Inr payload"
  by (simp add: decodeJWT_def)

lemma falsy_not_greater: "\<not> ToBoolean x \<Longrightarrow> 0 \<le> t \<Longrightarrow> js_greater P x t \<noteq> Inr True"
  by (cases x) (auto simp: js_greater_def)

lemma js_greater_number: "js_greater P (JNum e) t = Inr (t < e)"
  by (simp add: js_greater_def)

lemma hasValidToken_decoded:
  assumes "getToken st = Some token" and "decodeJWT P token = Inr payload"
  shows "hasValidToken P st now =
           (case read_exp payload of
              Inl e \<Rightarrow> JBool False
            | Inr exp_claim \<Rightarrow>
                if ToBoolean exp_claim
                then (case js_greater P exp_claim (currentTime P now) of
                        Inl e \<Rightarrow> JBool False
                      | Inr b \<Rightarrow> JBool b)
                else exp_claim)"
proof -
  have "token \<noteq> []" using assms(2) decodeJWT_empty [of P] by auto
  then show ?thesis using assms by (simp add: hasValidToken_def)
qed

lemma hasValidToken_undecoded:
  assumes "getToken st = Some token" and "decodeJWT P token = Inl e"
  shows "hasValidToken P st now = JBool False"
  using assms by (simp add: hasValidToken_def)

text \<open>
  On a clock that is not negative the test of truthiness before the comparison changes
  nothing: the result is \<^verbatim>\<open>true\<close> exactly when a stored token decodes and its expiry
  compares greater than the clock.
\<close>

lemma hasValidToken_true_iff:
  assumes nn: "0 \<le> currentTime P now"
  shows "(hasValidToken P st now = JBool True) =
   (\<exists>token payload exp_claim.
      getToken st = Some token \<and> decodeJWT P token = Inr payload \<and>
      read_exp payload = Inr exp_claim \<and> js_greater P exp_claim (currentTime P now) = Inr True)"
proof (cases "getToken st")
  case None
  then show ?thesis by (simp add: hasValidToken_def)
next
  case (Some token)
  show ?thesis
  proof (cases "decodeJWT P token")
    case (Inl e)
    then show ?thesis using Some by (simp add: hasValidToken_undecoded)
  next
    case (Inr payload)
    note dec = hasValidToken_decoded [OF Some Inr, of now]
    show ?thesis
    proof (cases "read_exp payload")
      case (Inl e)
      then show ?thesis using Some Inr dec by simp
    next
      case r: (Inr exp_claim)
      show ?thesis
      proof (cases "ToBoolean exp_claim")
        case True
        then show ?thesis using Some Inr r dec by (auto split: sum.splits)
      next
        case False
        have "exp_claim \<noteq> JBool True" using False by auto
        moreover have "js_greater P exp_claim (currentTime P now) \<noteq> Inr True"
          using falsy_not_greater [OF False nn] .
        ultimately show ?thesis using Some Inr r False dec by simp
      qed
    qed
  qed
qed

text \<open>The result is \<^verbatim>\<open>true\<close> or a falsy value.\<close>

lemma hasValidToken_truthy: "ToBoolean (hasValidToken P st now) = (hasValidToken P st now = JBool True)"
proof (cases "getToken st")
  case None
  then show ?thesis by (simp add: hasValidToken_def)
next
  case (Some token)
  show ?thesis
  proof (cases "decodeJWT P token")
    case (Inl e)
    then show ?thesis using Some by (simp add: hasValidToken_undecoded)
  next
    case (Inr payload)
    show ?thesis
      unfolding hasValidToken_decoded [OF Some Inr]
      by (auto split: sum.splits)
  qed
qed

lemma hasValidToken_number:
  assumes "getToken st = Some token" and "decodeJWT P token = Inr payload"
    and "read_exp payload = Inr (JNum e)"
  shows "hasValidToken P st now =
           (if e = 0 then JNum 0 else JBool (currentTime P now < e))"
  unfolding hasValidToken_decoded [OF assms(1,2)]
  using assms(3) by (simp add: js_greater_number)

lemmas sample_decode_defs =
  decodeJWT_def index_opt_def replace_all_def sample_platform_def percent_encode_def
  slice_last2_def digit_char_def quoted_def json_exp_2000_def json_exp_string_def
  json_no_exp_def json_exp_0_def

lemma sample_decode_2000:
  "decodeJWT sample_platform token_exp_2000 = Inr (JObj [(''exp'', JNum 2000)])"
  by (simp add: token_exp_2000_def sample_decode_defs)

lemma sample_decode_string:
  "decodeJWT sample_platform token_exp_string = Inr (JObj [(''exp'', JStr ''99999999999'')])"
  by (simp add: token_exp_string_def sample_decode_defs)

lemma sample_decode_no_exp:
  "decodeJWT sample_platform token_no_exp = Inr (JObj [(''sub'', JNum 1)])"
  by (simp add: token_no_exp_def sample_decode_defs)

lemma sample_decode_0:
  "decodeJWT sample_platform token_exp_0 = Inr (JObj [(''exp'', JNum 0)])"
  by (simp add: token_exp_0_def sample_decode_defs)

lemma sample_currentTime:
  "currentTime sample_platform 1000000 = 1000" "currentTime sample_platform 3000000 = 3000"
  by (simp_all add: currentTime_def sample_platform_def)

lemma getToken_session_with: "getToken (session_with token u flag) = token"
  by (simp add: getToken_def session_with_def)

section \<open>C1: a token that has expired\<close>

text \<open>
  C1. The claim has \<^verbatim>\<open>isAuthenticated()\<close> return \<^verbatim>\<open>false\<close> for every token whose
  expiry is at most the current time. The code does so for every such expiry but 0: for
  the stored token with the payload \<^verbatim>\<open>{"exp":0}\<close>, which the platform decodes, the value of
  \<^verbatim>\<open>payload.exp && payload.exp > currentTime\<close> is \<^verbatim>\<open>payload.exp\<close>, and the method,
  declared \<^verbatim>\<open>boolean\<close>, returns the number 0.
\<close>

theorem zero_expiry_returns_number:
  "decodeJWT sample_platform token_exp_0 = Inr (JObj [(''exp'', JNum 0)]) \<and>
   isAuthenticated sample_platform (session_with (Some token_exp_0) None (JBool False)) 1000000 = JNum 0"
proof -
  let ?st = "session_with (Some token_exp_0) None (JBool False)"
  have tok: "getToken ?st = Some token_exp_0" by (rule getToken_session_with)
  have rd: "read_exp (JObj [(''exp'', JNum 0)]) = Inr (JNum 0)" by simp
  have "hasValidToken sample_platform ?st 1000000 = JNum 0"
    using hasValidToken_number [OF tok sample_decode_0 rd, of 1000000] by simp
  then show ?thesis by (simp add: sample_decode_0 isAuthenticated_def)
qed

section \<open>C2: malformed tokens fail closed, a non-numeric expiry is compared all the same\<close>

text \<open>
  C2, as the claim states it, fails: a token whose payload carries the expiry as a string
  has no numeric \<^verbatim>\<open>exp\<close> claim, and \<^verbatim>\<open>isAuthenticated()\<close> returns \<^verbatim>\<open>true\<close> for
  it, since \<^verbatim>\<open>>\<close> converts the string to a number.
\<close>

theorem string_expiry_authenticates:
  "decodeJWT sample_platform token_exp_string = Inr (JObj [(''exp'', JStr ''99999999999'')]) \<and>
   isAuthenticated sample_platform (session_with (Some token_exp_string) None (JBool False)) 1000000 = JBool True"
proof -
  let ?st = "session_with (Some token_exp_string) None (JBool False)"
  have tok: "getToken ?st = Some token_exp_string" by (rule getToken_session_with)
  have gt: "js_greater sample_platform (JStr ''99999999999'') (currentTime sample_platform 1000000) = Inr True"
    by (simp add: sample_currentTime) (simp add: js_greater_def sample_platform_def)
  have "hasValidToken sample_platform ?st 1000000 = JBool True"
    unfolding hasValidToken_decoded [OF tok sample_decode_string] using gt by simp
  then show ?thesis by (simp add: sample_decode_string isAuthenticated_def)
qed

text \<open>
  C2, amended. \<^verbatim>\<open>isAuthenticated()\<close> always returns a value, no exception escapes it.
  \<^verbatim>\<open>decodeJWT\<close> rejects a token, with the error \<^verbatim>\<open>Token JWT invalide\<close>, when the
  token has no second segment, when \<^verbatim>\<open>atob\<close> throws on that segment (after \<^verbatim>\<open>-\<close> and
  \<^verbatim>\<open>_\<close> are replaced), when \<^verbatim>\<open>decodeURIComponent\<close> throws on the percent-encoded
  bytes, or when \<^verbatim>\<open>JSON.parse\<close> throws on the text; otherwise it returns the parsed
  payload. For a stored token that is rejected the error is caught in
  \<^verbatim>\<open>hasValidToken\<close> and the result is \<^verbatim>\<open>false\<close>. The result is \<^verbatim>\<open>false\<close> too when
  the payload is \<^verbatim>\<open>null\<close> or when the conversion of the expiry to a number throws. When
  the payload has no \<^verbatim>\<open>exp\<close> claim, or a falsy one, the result is not truthy. An expiry
  that is truthy and not a number is not rejected: the result is the outcome of the
  comparison after conversion.
\<close>

theorem malformed_token_not_authenticated:
  "(index_opt (split_on CHR ''.'' token) 1 = None \<longrightarrow>
      decodeJWT P token = Inl (Error ''Token JWT invalide'')) \<and>
   (\<forall>seg. index_opt (split_on CHR ''.'' token) 1 = Some seg \<and>
      atob P (replace_all CHR ''_'' CHR ''/'' (replace_all CHR ''-'' CHR ''+'' seg)) = None \<longrightarrow>
      decodeJWT P token = Inl (Error ''Token JWT invalide'')) \<and>
   (\<forall>seg bin. index_opt (split_on CHR ''.'' token) 1 = Some seg \<and>
      atob P (replace_all CHR ''_'' CHR ''/'' (replace_all CHR ''-'' CHR ''+'' seg)) = Some bin \<and>
      decodeURIComponent P (concat (map percent_encode bin)) = None \<longrightarrow>
      decodeJWT P token = Inl (Error ''Token JWT invalide'')) \<and>
   (\<forall>seg bin jsonPayload. index_opt (split_on CHR ''.'' token) 1 = Some seg \<and>
      atob P (replace_all CHR ''_'' CHR ''/'' (replace_all CHR ''-'' CHR ''+'' seg)) = Some bin \<and>
      decodeURIComponent P (concat (map percent_encode bin)) = Some jsonPayload \<and>
      JSON_parse P jsonPayload = None \<longrightarrow>
      decodeJWT P token = Inl (Error ''Token JWT invalide'')) \<and>
   (\<forall>seg bin jsonPayload payload. index_opt (split_on CHR ''.'' token) 1 = Some seg \<and>
      atob P (replace_all CHR ''_'' CHR ''/'' (replace_all CHR ''-'' CHR ''+'' seg)) = Some bin \<and>
      decodeURIComponent P (concat (map percent_encode bin)) = Some jsonPayload \<and>
      JSON_parse P jsonPayload = Some payload \<longrightarrow>
      decodeJWT P token = Inr payload) \<and>
   (\<forall>e. getToken st = Some token \<and> decodeJWT P token = Inl e \<longrightarrow>
      e = Error ''Token JWT invalide'' \<and> isAuthenticated P st now = JBool False) \<and>
   (getToken st = Some token \<and> decodeJWT P token = Inr JNull \<longrightarrow>
      isAuthenticated P st now = JBool False) \<and>
   (\<forall>payload x. getToken st = Some token \<and> decodeJWT P token = Inr payload \<and>
      read_exp payload = Inr x \<and> \<not> ToBoolean x \<longrightarrow>
      \<not> ToBoolean (isAuthenticated P st now)) \<and>
   (\<forall>payload x e. getToken st = Some token \<and> decodeJWT P token = Inr payload \<and>
      read_exp payload = Inr x \<and> ToBoolean x \<and> js_greater P x (currentTime P now) = Inl e \<longrightarrow>
      isAuthenticated P st now = JBool False) \<and>
   (\<forall>payload x b. getToken st = Some token \<and> decodeJWT P token = Inr payload \<and>
      read_exp payload = Inr x \<and> ToBoolean x \<and> js_greater P x (currentTime P now) = Inr b \<longrightarrow>
      isAuthenticated P st now = JBool b)"
proof (intro conjI allI impI)
  assume "index_opt (split_on CHR ''.'' token) 1 = None"
  then show "decodeJWT P token = Inl (Error ''Token JWT invalide'')"
    by (rule decodeJWT_no_segment)
next
  fix seg
  assume "index_opt (split_on CHR ''.'' token) 1 = Some seg \<and>
      atob P (replace_all CHR ''_'' CHR ''/'' (replace_all CHR ''-'' CHR ''+'' seg)) = None"
  then show "decodeJWT P token = Inl (Error ''Token JWT invalide'')"
    using decodeJWT_atob_fails by blast
next
  fix seg bin
  assume "index_opt (split_on CHR ''.'' token) 1 = Some seg \<and>
      atob P (replace_all CHR ''_'' CHR ''/'' (replace_all CHR ''-'' CHR ''+'' seg)) = Some bin \<and>
      decodeURIComponent P (concat (map percent_encode bin)) = None"
  then show "decodeJWT P token = Inl (Error ''Token JWT invalide'')"
    using decodeJWT_decodeURIComponent_fails by blast
next
  fix seg bin jsonPayload
  assume "index_opt (split_on CHR ''.'' token) 1 = Some seg \<and>
      atob P (replace_all CHR ''_'' CHR ''/'' (replace_all CHR ''-'' CHR ''+'' seg)) = Some bin \<and>
      decodeURIComponent P (concat (map percent_encode bin)) = Some jsonPayload \<and>
      JSON_parse P jsonPayload = None"
  then show "decodeJWT P token = Inl (Error ''Token JWT invalide'')"
    using decodeJWT_JSON_parse_fails by blast
next
  fix seg bin jsonPayload payload
  assume "index_opt (split_on CHR ''.'' token) 1 = Some seg \<and>
      atob P (replace_all CHR ''_'' CHR ''/'' (replace_all CHR ''-'' CHR ''+'' seg)) = Some bin \<and>
      decodeURIComponent P (concat (map percent_encode bin)) = Some jsonPayload \<and>
      JSON_parse P jsonPayload = Some payload"
  then show "decodeJWT P token = Inr payload"
    using decodeJWT_succeeds by blast
next
  fix e
  assume h: "getToken st = Some token \<and> decodeJWT P token = Inl e"
  then show "e = Error ''Token JWT invalide''" using decodeJWT_error by blast
  show "isAuthenticated P st now = JBool False"
    unfolding isAuthenticated_def using h by (simp add: hasValidToken_undecoded)
next
  assume h: "getToken st = Some token \<and> decodeJWT P token = Inr JNull"
  then have "hasValidToken P st now = JBool False"
    using hasValidToken_decoded [of st token P JNull now] by simp
  then show "isAuthenticated P st now = JBool False" by (simp add: isAuthenticated_def)
next
  fix payload x
  assume h: "getToken st = Some token \<and> decodeJWT P token = Inr payload \<and>
      read_exp payload = Inr x \<and> \<not> ToBoolean x"
  then have "hasValidToken P st now = x"
    using hasValidToken_decoded [of st token P payload now] by simp
  then show "\<not> ToBoolean (isAuthenticated P st now)"
    using h by (simp add: isAuthenticated_def)
next
  fix payload x e
  assume h: "getToken st = Some token \<and> decodeJWT P token = Inr payload \<and>
      read_exp payload = Inr x \<and> ToBoolean x \<and> js_greater P x (currentTime P now) = Inl e"
  then have "hasValidToken P st now = JBool False"
    using hasValidToken_decoded [of st token P payload now] by simp
  then show "isAuthenticated P st now = JBool False" by (simp add: isAuthenticated_def)
next
  fix payload x b
  assume h: "getToken st = Some token \<and> decodeJWT P token = Inr payload \<and>
      read_exp payload = Inr x \<and> ToBoolean x \<and> js_greater P x (currentTime P now) = Inr b"
  then have "hasValidToken P st now = JBool b"
    using hasValidToken_decoded [of st token P payload now] by simp
  then show "isAuthenticated P st now = JBool b" by (simp add: isAuthenticated_def)
qed

theorem malformed_token_not_authenticated_witness:
  "isAuthenticated sample_platform (session_with (Some ''not-a-jwt'') None (JBool True)) 1000000 = JBool False \<and>
   decodeJWT sample_platform ''a.b.c'' = Inl (Error ''Token JWT invalide'') \<and>
   isAuthenticated sample_platform (session_with (Some ''a.b.c'') None (JBool True)) 1000000 = JBool False \<and>
   \<not> ToBoolean (isAuthenticated sample_platform (session_with (Some token_no_exp) None (JBool True)) 1000000)"
proof -
  let ?bad = "session_with (Some ''not-a-jwt'') None (JBool True)"
  let ?abc = "session_with (Some ''a.b.c'') None (JBool True)"
  let ?noexp = "session_with (Some token_no_exp) None (JBool True)"
  note bad = malformed_token_not_authenticated [of "''not-a-jwt''" sample_platform ?bad 1000000]
  note abc = malformed_token_not_authenticated [of "''a.b.c''" sample_platform ?abc 1000000]
  note noexp = malformed_token_not_authenticated [of token_no_exp sample_platform ?noexp 1000000]
  have t1: "getToken ?bad = Some ''not-a-jwt''" by (rule getToken_session_with)
  have s1: "index_opt (split_on CHR ''.'' ''not-a-jwt'') 1 = None" by (simp add: index_opt_def)
  have d1: "decodeJWT sample_platform ''not-a-jwt'' = Inl (Error ''Token JWT invalide'')"
    by (rule bad [THEN conjunct1, rule_format, OF s1])
  have 1: "isAuthenticated sample_platform ?bad 1000000 = JBool False"
    by (rule bad [THEN conjunct2, THEN conjunct2, THEN conjunct2, THEN conjunct2, THEN conjunct2,
          THEN conjunct1, rule_format, OF conjI [OF t1 d1], THEN conjunct2])
  have t3: "getToken ?abc = Some ''a.b.c''" by (rule getToken_session_with)
  have s3: "index_opt (split_on CHR ''.'' ''a.b.c'') 1 = Some ''b''" by (simp add: index_opt_def)
  have a3: "atob sample_platform (replace_all CHR ''_'' CHR ''/'' (replace_all CHR ''-'' CHR ''+'' ''b'')) = None"
    by (simp add: replace_all_def sample_platform_def)
  have d3: "decodeJWT sample_platform ''a.b.c'' = Inl (Error ''Token JWT invalide'')"
    by (rule abc [THEN conjunct2, THEN conjunct1, rule_format, OF conjI [OF s3 a3]])
  have 3: "isAuthenticated sample_platform ?abc 1000000 = JBool False"
    by (rule abc [THEN conjunct2, THEN conjunct2, THEN conjunct2, THEN conjunct2, THEN conjunct2,
          THEN conjunct1, rule_format, OF conjI [OF t3 d3], THEN conjunct2])
  have t2: "getToken ?noexp = Some token_no_exp" by (rule getToken_session_with)
  have r2: "read_exp (JObj [(''sub'', JNum 1)]) = Inr JUndefined" by simp
  have f2: "\<not> ToBoolean JUndefined" by simp
  have 2: "\<not> ToBoolean (isAuthenticated sample_platform ?noexp 1000000)"
    by (rule noexp [THEN conjunct2, THEN conjunct2, THEN conjunct2, THEN conjunct2, THEN conjunct2,
          THEN conjunct2, THEN conjunct2, THEN conjunct1, rule_format,
          OF conjI [OF t2 conjI [OF sample_decode_no_exp conjI [OF r2 f2]]]])
  show ?thesis using 1 d3 3 2 by simp
qed

section \<open>C3: login\<close>

lemma keys_differ: "TOKEN_KEY \<noteq> USER_KEY"
  by (simp add: TOKEN_KEY_def USER_KEY_def)

lemma AuthService_handleError_message: "\<exists>m. AuthService_handleError err = NewError m \<and> m \<noteq> []"
  by (simp add: AuthService_handleError_def Let_def split: http_error_body.splits option.splits)

text \<open>
  C3. On a response, \<^verbatim>\<open>login\<close> passes the response on, stores the returned token
  under \<^verbatim>\<open>school_auth_token\<close> and the serialised user under \<^verbatim>\<open>school_user_data\<close>,
  pushes the user on \<^verbatim>\<open>currentUserSubject\<close> and \<^verbatim>\<open>true\<close> on
  \<^verbatim>\<open>isAuthenticatedSubject\<close>. On a failure the whole state (stored token, stored user and
  both subjects included) is what it was, and the caller receives a new \<^verbatim>\<open>Error\<close> with
  a message that is not empty.
\<close>

theorem login_success_stores_failure_leaves:
  "snd (login stringify (Success response) st) = Inr response \<and>
   localStorage (fst (login stringify (Success response) st)) TOKEN_KEY = Some (access_token response) \<and>
   localStorage (fst (login stringify (Success response) st)) USER_KEY = Some (stringify (user response)) \<and>
   currentUserSubject (fst (login stringify (Success response) st)) = Some (user response) \<and>
   isAuthenticatedSubject (fst (login stringify (Success response) st)) = JBool True \<and>
   fst (login stringify (Failure err) st) = st \<and>
   snd (login stringify (Failure err) st) = Inl (AuthService_handleError err) \<and>
   (\<exists>m. AuthService_handleError err = NewError m \<and> m \<noteq> [])"
  using keys_differ AuthService_handleError_message [of err]
  by (simp add: login_def setToken_def setUser_def Let_def)

section \<open>C4: the guards on an unauthenticated session\<close>

lemma navigate_simps:
  "navigations (navigate p st) = navigations st @ [p]"
  "sessionStorage (navigate p st) = sessionStorage st"
  "localStorage (navigate p st) = localStorage st"
  by (simp_all add: navigate_def)

lemma AuthGuard_unauthenticated:
  "\<not> ToBoolean (isAuthenticatedSubject st) \<Longrightarrow> url \<noteq> [] \<Longrightarrow>
   AuthGuard_canActivate url st
     = (navigate ''/login'' (st\<lparr>sessionStorage := (sessionStorage st)(''redirectUrl'' \<mapsto> url)\<rparr>), False)"
  by (simp add: AuthGuard_canActivate_def AuthGuard_checkAuth_def)

lemma AuthGuard_canLoad_unauthenticated:
  "\<not> ToBoolean (isAuthenticatedSubject st) \<Longrightarrow> AuthGuard_canLoad st = (navigate ''/login'' st, False)"
  by (simp add: AuthGuard_canLoad_def AuthGuard_checkAuth_def)

lemma RoleGuard_unauthenticated:
  "\<not> ToBoolean (isAuthenticatedSubject st) \<Longrightarrow>
   RoleGuard_canActivate rd url st
     = (navigate ''/login'' (st\<lparr>sessionStorage := (sessionStorage st)(''redirectUrl'' \<mapsto> url)\<rparr>), False)"
  by (simp add: RoleGuard_canActivate_def RoleGuard_checkRole_def)

lemma AdminGuard_unauthenticated:
  "\<not> ToBoolean (isAuthenticatedSubject st) \<Longrightarrow>
   AdminGuard_canActivate url st
     = (navigate ''/login'' (st\<lparr>sessionStorage := (sessionStorage st)(''redirectUrl'' \<mapsto> url)\<rparr>), False)"
  by (simp add: AdminGuard_canActivate_def)

lemma TeacherGuard_unauthenticated:
  "\<not> ToBoolean (isAuthenticatedSubject st) \<Longrightarrow>
   TeacherGuard_canActivate url st
     = (navigate ''/login'' (st\<lparr>sessionStorage := (sessionStorage st)(''redirectUrl'' \<mapsto> url)\<rparr>), False)"
  by (simp add: TeacherGuard_canActivate_def)

lemma StudentGuard_unauthenticated:
  "\<not> ToBoolean (isAuthenticatedSubject st) \<Longrightarrow>
   StudentGuard_canActivate url st
     = (navigate ''/login'' (st\<lparr>sessionStorage := (sessionStorage st)(''redirectUrl'' \<mapsto> url)\<rparr>), False)"
  by (simp add: StudentGuard_canActivate_def)

lemma authGuard_unauthenticated:
  "\<not> ToBoolean (isAuthenticated P st now) \<Longrightarrow> authGuard P now rd url st = (navigate ''/login'' st, Inr False)"
  by (simp add: authGuard_def)

lemma AuthGuard_decides_on_flag:
  "snd (AuthGuard_canActivate url st) = ToBoolean (isAuthenticatedSubject st)"
  "snd (AuthGuard_canLoad st) = ToBoolean (isAuthenticatedSubject st)"
  by (simp_all add: AuthGuard_canActivate_def AuthGuard_canLoad_def AuthGuard_checkAuth_def Let_def)

lemma StudentDataGuard_no_user:
  "getCurrentUser st = None \<Longrightarrow>
   StudentDataGuard_canActivate parseInt params st = (navigate ''/unauthorized'' st, False)"
  by (simp add: StudentDataGuard_canActivate_def canAccessStudent_def Let_def split: option.splits)

lemma getCurrentUser_ignores_flag:
  "getCurrentUser (st\<lparr>localStorage := ls, isAuthenticatedSubject := flag\<rparr>) = getCurrentUser st"
  by (simp add: getCurrentUser_def)

lemma getStudentInfo_ignores_flag:
  "getStudentInfo (st\<lparr>localStorage := ls, isAuthenticatedSubject := flag\<rparr>) = getStudentInfo st"
  unfolding getStudentInfo_def getCurrentUser_ignores_flag by (rule refl)

lemma canAccessStudent_ignores_flag:
  "canAccessStudent (st\<lparr>localStorage := ls, isAuthenticatedSubject := flag\<rparr>) n = canAccessStudent st n"
  unfolding canAccessStudent_def getCurrentUser_ignores_flag getStudentInfo_ignores_flag by (rule refl)

lemma StudentDataGuard_ignores_flag:
  "snd (StudentDataGuard_canActivate parseInt params (st\<lparr>localStorage := ls, isAuthenticatedSubject := flag\<rparr>))
     = snd (StudentDataGuard_canActivate parseInt params st)"
  unfolding StudentDataGuard_canActivate_def Let_def canAccessStudent_ignores_flag
  by (simp split: option.splits)

text \<open>
  C4, as the claim states it, fails on the guard the route table installs: on a session
  with no token, \<^verbatim>\<open>authGuard\<close> denies the navigation to \<^verbatim>\<open>/admin\<close> and redirects
  to \<^verbatim>\<open>/login\<close>, and session storage holds no \<^verbatim>\<open>redirectUrl\<close> afterwards.
\<close>

theorem authGuard_stores_no_url:
  "snd (authGuard sample_platform 1000000 \<lparr>data_roles = Some [''admin''], data_role = None\<rparr> ''/admin''
          (session_with None None (JBool False))) = Inr False \<and>
   navigations (fst (authGuard sample_platform 1000000 \<lparr>data_roles = Some [''admin''], data_role = None\<rparr> ''/admin''
          (session_with None None (JBool False)))) = [''/login''] \<and>
   sessionStorage (fst (authGuard sample_platform 1000000 \<lparr>data_roles = Some [''admin''], data_role = None\<rparr> ''/admin''
          (session_with None None (JBool False)))) ''redirectUrl'' = None"
proof -
  let ?st = "session_with None None (JBool False)"
  have "isAuthenticated sample_platform ?st 1000000 = JBool False"
    by (simp add: isAuthenticated_def hasValidToken_def getToken_session_with)
  then have "\<not> ToBoolean (isAuthenticated sample_platform ?st 1000000)" by simp
  then have "authGuard sample_platform 1000000 \<lparr>data_roles = Some [''admin''], data_role = None\<rparr> ''/admin'' ?st
      = (navigate ''/login'' ?st, Inr False)"
    by (rule authGuard_unauthenticated)
  then show ?thesis by (simp add: navigate_simps) (simp add: session_with_def)
qed

text \<open>
  C4, amended. The class guards read the last value pushed on \<^verbatim>\<open>isAuthenticated$\<close>.
  While that value is falsy, \<^verbatim>\<open>AuthGuard.canActivate\<close> (for a URL that is not empty),
  \<^verbatim>\<open>RoleGuard\<close>, \<^verbatim>\<open>AdminGuard\<close>, \<^verbatim>\<open>TeacherGuard\<close> and \<^verbatim>\<open>StudentGuard\<close> deny the
  navigation, redirect to \<^verbatim>\<open>/login\<close> and store the attempted URL under
  \<^verbatim>\<open>redirectUrl\<close> in session storage; \<^verbatim>\<open>AuthGuard.canLoad\<close> denies and redirects to
  \<^verbatim>\<open>/login\<close> and stores nothing; \<^verbatim>\<open>LoginGuard\<close>, on the login page, admits.
  \<^verbatim>\<open>AuthGuard\<close> admits exactly when that value is truthy, whatever the stored token.
  The functional \<^verbatim>\<open>authGuard\<close> of the route table calls \<^verbatim>\<open>isAuthenticated()\<close>: while
  its result is falsy it denies, redirects to \<^verbatim>\<open>/login\<close> and stores nothing.
  \<^verbatim>\<open>StudentDataGuard\<close> reads neither the flag nor the token: with no current user it
  denies and redirects to \<^verbatim>\<open>/unauthorized\<close>, storing nothing.
\<close>

theorem unauthenticated_navigation_denied:
  "(\<not> ToBoolean (isAuthenticatedSubject st) \<longrightarrow>
      (url \<noteq> [] \<longrightarrow>
         snd (AuthGuard_canActivate url st) = False \<and>
         navigations (fst (AuthGuard_canActivate url st)) = navigations st @ [''/login''] \<and>
         sessionStorage (fst (AuthGuard_canActivate url st)) = (sessionStorage st)(''redirectUrl'' \<mapsto> url)) \<and>
      snd (RoleGuard_canActivate rd url st) = False \<and>
      navigations (fst (RoleGuard_canActivate rd url st)) = navigations st @ [''/login''] \<and>
      sessionStorage (fst (RoleGuard_canActivate rd url st)) = (sessionStorage st)(''redirectUrl'' \<mapsto> url) \<and>
      snd (AdminGuard_canActivate url st) = False \<and>
      navigations (fst (AdminGuard_canActivate url st)) = navigations st @ [''/login''] \<and>
      sessionStorage (fst (AdminGuard_canActivate url st)) = (sessionStorage st)(''redirectUrl'' \<mapsto> url) \<and>
      snd (TeacherGuard_canActivate url st) = False \<and>
      navigations (fst (TeacherGuard_canActivate url st)) = navigations st @ [''/login''] \<and>
      sessionStorage (fst (TeacherGuard_canActivate url st)) = (sessionStorage st)(''redirectUrl'' \<mapsto> url) \<and>
      snd (StudentGuard_canActivate url st) = False \<and>
      navigations (fst (StudentGuard_canActivate url st)) = navigations st @ [''/login''] \<and>
      sessionStorage (fst (StudentGuard_canActivate url st)) = (sessionStorage st)(''redirectUrl'' \<mapsto> url) \<and>
      snd (AuthGuard_canLoad st) = False \<and>
      navigations (fst (AuthGuard_canLoad st)) = navigations st @ [''/login''] \<and>
      sessionStorage (fst (AuthGuard_canLoad st)) = sessionStorage st \<and>
      LoginGuard_canActivate st = (st, True)) \<and>
   snd (AuthGuard_canActivate url st) = ToBoolean (isAuthenticatedSubject st) \<and>
   snd (AuthGuard_canLoad st) = ToBoolean (isAuthenticatedSubject st) \<and>
   (\<not> ToBoolean (isAuthenticated P st now) \<longrightarrow>
      snd (authGuard P now rd url st) = Inr False \<and>
      navigations (fst (authGuard P now rd url st)) = navigations st @ [''/login''] \<and>
      sessionStorage (fst (authGuard P now rd url st)) = sessionStorage st) \<and>
   (getCurrentUser st = None \<longrightarrow>
      snd (StudentDataGuard_canActivate parseInt params st) = False \<and>
      navigations (fst (StudentDataGuard_canActivate parseInt params st)) = navigations st @ [''/unauthorized''] \<and>
      sessionStorage (fst (StudentDataGuard_canActivate parseInt params st)) = sessionStorage st) \<and>
   snd (StudentDataGuard_canActivate parseInt params (st\<lparr>localStorage := ls, isAuthenticatedSubject := flag\<rparr>))
     = snd (StudentDataGuard_canActivate parseInt params st)"
proof -
  have a: "\<not> ToBoolean (isAuthenticatedSubject st) \<longrightarrow>
      (url \<noteq> [] \<longrightarrow>
         snd (AuthGuard_canActivate url st) = False \<and>
         navigations (fst (AuthGuard_canActivate url st)) = navigations st @ [''/login''] \<and>
         sessionStorage (fst (AuthGuard_canActivate url st)) = (sessionStorage st)(''redirectUrl'' \<mapsto> url)) \<and>
      snd (RoleGuard_canActivate rd url st) = False \<and>
      navigations (fst (RoleGuard_canActivate rd url st)) = navigations st @ [''/login''] \<and>
      sessionStorage (fst (RoleGuard_canActivate rd url st)) = (sessionStorage st)(''redirectUrl'' \<mapsto> url) \<and>
      snd (AdminGuard_canActivate url st) = False \<and>
      navigations (fst (AdminGuard_canActivate url st)) = navigations st @ [''/login''] \<and>
      sessionStorage (fst (AdminGuard_canActivate url st)) = (sessionStorage st)(''redirectUrl'' \<mapsto> url) \<and>
      snd (TeacherGuard_canActivate url st) = False \<and>
      navigations (fst (TeacherGuard_canActivate url st)) = navigations st @ [''/login''] \<and>
      sessionStorage (fst (TeacherGuard_canActivate url st)) = (sessionStorage st)(''redirectUrl'' \<mapsto> url) \<and>
      snd (StudentGuard_canActivate url st) = False \<and>
      navigations (fst (StudentGuard_canActivate url st)) = navigations st @ [''/login''] \<and>
      sessionStorage (fst (StudentGuard_canActivate url st)) = (sessionStorage st)(''redirectUrl'' \<mapsto> url) \<and>
      snd (AuthGuard_canLoad st) = False \<and>
      navigations (fst (AuthGuard_canLoad st)) = navigations st @ [''/login''] \<and>
      sessionStorage (fst (AuthGuard_canLoad st)) = sessionStorage st \<and>
      LoginGuard_canActivate st = (st, True)"
    by (simp add: AuthGuard_unauthenticated AuthGuard_canLoad_unauthenticated RoleGuard_unauthenticated
        AdminGuard_unauthenticated TeacherGuard_unauthenticated StudentGuard_unauthenticated
        LoginGuard_canActivate_def navigate_simps)
  have b: "snd (AuthGuard_canActivate url st) = ToBoolean (isAuthenticatedSubject st)"
    by (rule AuthGuard_decides_on_flag)
  have c: "snd (AuthGuard_canLoad st) = ToBoolean (isAuthenticatedSubject st)"
    by (rule AuthGuard_decides_on_flag)
  have d: "\<not> ToBoolean (isAuthenticated P st now) \<longrightarrow>
      snd (authGuard P now rd url st) = Inr False \<and>
      navigations (fst (authGuard P now rd url st)) = navigations st @ [''/login''] \<and>
      sessionStorage (fst (authGuard P now rd url st)) = sessionStorage st"
    by (simp add: authGuard_unauthenticated navigate_simps)
  have e: "getCurrentUser st = None \<longrightarrow>
      snd (StudentDataGuard_canActivate parseInt params st) = False \<and>
      navigations (fst (StudentDataGuard_canActivate parseInt params st)) = navigations st @ [''/unauthorized''] \<and>
      sessionStorage (fst (StudentDataGuard_canActivate parseInt params st)) = sessionStorage st"
    by (simp add: StudentDataGuard_no_user navigate_simps)
  have f: "snd (StudentDataGuard_canActivate parseInt params (st\<lparr>localStorage := ls, isAuthenticatedSubject := flag\<rparr>))
     = snd (StudentDataGuard_canActivate parseInt params st)"
    by (rule StudentDataGuard_ignores_flag)
  from a b c d e f show ?thesis by (intro conjI)
qed

theorem unauthenticated_navigation_denied_witness:
  "snd (AuthGuard_canActivate ''/admin'' (session_with None None (JBool False))) = False \<and>
   navigations (fst (AuthGuard_canActivate ''/admin'' (session_with None None (JBool False)))) = [''/login''] \<and>
   sessionStorage (fst (AuthGuard_canActivate ''/admin'' (session_with None None (JBool False)))) ''redirectUrl''
     = Some ''/admin'' \<and>
   sessionStorage (fst (AdminGuard_canActivate ''/admin'' (session_with None None (JBool False)))) ''redirectUrl''
     = Some ''/admin'' \<and>
   snd (authGuard sample_platform 1000000 \<lparr>data_roles = Some [''admin''], data_role = None\<rparr> ''/admin''
          (session_with None None (JBool False))) = Inr False \<and>
   navigations (fst (StudentDataGuard_canActivate (\<lambda>s. if s = Some ''12'' then Some 12 else None)
          \<lparr>params_id = Some ''12'', params_studentId = None\<rparr> (session_with None None (JBool False))))
     = [''/unauthorized'']"
proof -
  let ?st = "session_with None None (JBool False)"
  let ?rd = "\<lparr>data_roles = Some [''admin''], data_role = None\<rparr>"
  let ?pI = "\<lambda>s. if s = Some ''12'' then Some (12::int) else None"
  let ?ps = "\<lparr>params_id = Some ''12'', params_studentId = None\<rparr>"
  note T = unauthenticated_navigation_denied
      [where st = ?st and url = "''/admin''" and rd = ?rd and P = sample_platform and now = 1000000
         and parseInt = ?pI and params = ?ps and ls = "localStorage ?st" and flag = "JBool False"]
  have f: "\<not> ToBoolean (isAuthenticatedSubject ?st)" by (simp add: session_with_def)
  have u: "''/admin'' \<noteq> []" by simp
  have n: "navigations ?st = []" by (simp add: session_with_def)
  have s: "sessionStorage ?st = Map.empty" by (simp add: session_with_def)
  have g: "getCurrentUser ?st = None" by (simp add: getCurrentUser_def session_with_def)
  have "isAuthenticated sample_platform ?st 1000000 = JBool False"
    by (simp add: isAuthenticated_def hasValidToken_def getToken_session_with)
  then have i: "\<not> ToBoolean (isAuthenticated sample_platform ?st 1000000)" by simp
  note A = T [THEN conjunct1, rule_format, OF f]
  note B = A [THEN conjunct1, rule_format, OF u]
  note D = T [THEN conjunct2, THEN conjunct2, THEN conjunct2, THEN conjunct1, rule_format, OF i]
  note E = T [THEN conjunct2, THEN conjunct2, THEN conjunct2, THEN conjunct2, THEN conjunct1,
      rule_format, OF g]
  show ?thesis using A B D E n s by simp
qed

section \<open>C5: a student on a route for administrators\<close>

text \<open>
  C5, as the claim states it, fails: a route can declare the allow-list
  \<^verbatim>\<open>['admin']\<close> in \<^verbatim>\<open>data.roles\<close> together with \<^verbatim>\<open>data.role: 'student'\<close>, and on
  such a route \<^verbatim>\<open>RoleGuard\<close> admits an authenticated student with no redirect, since the
  test of \<^verbatim>\<open>data.role\<close> comes last and replaces the result of the test of the allow-list.
\<close>

theorem required_role_admits_student:
  "RoleGuard_canActivate \<lparr>data_roles = Some [''admin''], data_role = Some ''student''\<rparr> ''/admin''
     (session_with (Some token_exp_2000) (Some sample_student) (JBool True))
   = (session_with (Some token_exp_2000) (Some sample_student) (JBool True), True)"
  by (simp add: RoleGuard_canActivate_def RoleGuard_checkRole_def Let_def hasRole_def hasAnyRole_def
      getUserRole_def getCurrentUser_def session_with_def sample_student_def)

text \<open>
  C5, amended. The session is authenticated, its user has the role \<^verbatim>\<open>student\<close>, and the
  route declares the allow-list \<^verbatim>\<open>['admin']\<close> in \<^verbatim>\<open>data.roles\<close>. Then \<^verbatim>\<open>RoleGuard\<close>,
  for which authenticated means that the last value of \<^verbatim>\<open>isAuthenticated$\<close> is truthy,
  denies the navigation and redirects to \<^verbatim>\<open>/student/dashboard\<close>, provided the route does
  not also declare \<^verbatim>\<open>data.role: 'student'\<close>; and \<^verbatim>\<open>authGuard\<close>, for which it means
  that \<^verbatim>\<open>isAuthenticated()\<close> is truthy, denies it and redirects to \<^verbatim>\<open>/login\<close>, whatever
  \<^verbatim>\<open>data.role\<close> is.
\<close>

theorem student_denied_on_admin_route:
  "(ToBoolean (isAuthenticatedSubject st) \<and> getUserRole st = Some ''student'' \<and>
    required \<noteq> Some ''student'' \<longrightarrow>
      \<not> hasAnyRole st [''admin''] \<and>
      snd (RoleGuard_canActivate \<lparr>data_roles = Some [''admin''], data_role = required\<rparr> url st) = False \<and>
      navigations (fst (RoleGuard_canActivate \<lparr>data_roles = Some [''admin''], data_role = required\<rparr> url st))
        = navigations st @ [''/student/dashboard'']) \<and>
   (ToBoolean (isAuthenticated P st now) \<and> getUserRole st = Some ''student'' \<longrightarrow>
      snd (authGuard P now \<lparr>data_roles = Some [''admin''], data_role = required\<rparr> url st) = Inr False \<and>
      navigations (fst (authGuard P now \<lparr>data_roles = Some [''admin''], data_role = required\<rparr> url st))
        = navigations st @ [''/login''])"
proof (intro conjI impI)
  assume h: "ToBoolean (isAuthenticatedSubject st) \<and> getUserRole st = Some ''student'' \<and>
    required \<noteq> Some ''student''"
  then have u: "getCurrentUser st \<noteq> None" by (auto simp: getUserRole_def split: option.splits)
  show a: "\<not> hasAnyRole st [''admin'']" using h by (simp add: hasAnyRole_def)
  have r: "RoleGuard_canActivate \<lparr>data_roles = Some [''admin''], data_role = required\<rparr> url st
             = (handleUnauthorized st, False)"
    using h u a
    by (cases required) (auto simp: RoleGuard_canActivate_def RoleGuard_checkRole_def Let_def hasRole_def)
  have n: "handleUnauthorized st = navigate ''/student/dashboard'' st"
    using h by (simp add: handleUnauthorized_def Let_def)
  show "snd (RoleGuard_canActivate \<lparr>data_roles = Some [''admin''], data_role = required\<rparr> url st) = False"
    using r by simp
  show "navigations (fst (RoleGuard_canActivate \<lparr>data_roles = Some [''admin''], data_role = required\<rparr> url st))
        = navigations st @ [''/student/dashboard'']"
    using r n by (simp add: navigate_simps)
next
  assume h: "ToBoolean (isAuthenticated P st now) \<and> getUserRole st = Some ''student''"
  then have r: "authGuard P now \<lparr>data_roles = Some [''admin''], data_role = required\<rparr> url st
                  = (navigate ''/login'' st, Inr False)"
    by (simp add: authGuard_def Let_def)
  show "snd (authGuard P now \<lparr>data_roles = Some [''admin''], data_role = required\<rparr> url st) = Inr False"
    using r by simp
  show "navigations (fst (authGuard P now \<lparr>data_roles = Some [''admin''], data_role = required\<rparr> url st))
        = navigations st @ [''/login'']"
    using r by (simp add: navigate_simps)
qed

theorem student_denied_on_admin_route_witness:
  "snd (RoleGuard_canActivate \<lparr>data_roles = Some [''admin''], data_role = None\<rparr> ''/admin''
          (session_with (Some token_exp_2000) (Some sample_student) (JBool True))) = False \<and>
   navigations (fst (RoleGuard_canActivate \<lparr>data_roles = Some [''admin''], data_role = None\<rparr> ''/admin''
          (session_with (Some token_exp_2000) (Some sample_student) (JBool True)))) = [''/student/dashboard''] \<and>
   snd (RoleGuard_canActivate \<lparr>data_roles = Some [''admin''], data_role = Some ''teacher''\<rparr> ''/admin''
          (session_with (Some token_exp_2000) (Some sample_student) (JBool True))) = False \<and>
   snd (authGuard sample_platform 1000000 \<lparr>data_roles = Some [''admin''], data_role = Some ''student''\<rparr> ''/admin''
          (session_with (Some token_exp_2000) (Some sample_student) (JBool True))) = Inr False \<and>
   navigations (fst (authGuard sample_platform 1000000 \<lparr>data_roles = Some [''admin''], data_role = Some ''student''\<rparr> ''/admin''
          (session_with (Some token_exp_2000) (Some sample_student) (JBool True)))) = [''/login'']"
proof -
  let ?st = "session_with (Some token_exp_2000) (Some sample_student) (JBool True)"
  have s: "ToBoolean (isAuthenticatedSubject ?st)" by (simp add: session_with_def)
  have r: "getUserRole ?st = Some ''student''"
    by (simp add: getUserRole_def getCurrentUser_def session_with_def sample_student_def)
  have n: "navigations ?st = []" by (simp add: session_with_def)
  have tok: "getToken ?st = Some token_exp_2000" by (rule getToken_session_with)
  have "hasValidToken sample_platform ?st 1000000 = JBool True"
    unfolding hasValidToken_decoded [OF tok sample_decode_2000]
    by (simp add: js_greater_number sample_currentTime)
  then have a: "ToBoolean (isAuthenticated sample_platform ?st 1000000)"
    by (simp add: isAuthenticated_def)
  have q1: "(None :: string option) \<noteq> Some ''student''" by simp
  have q2: "Some ''teacher'' \<noteq> Some ''student''" by simp
  note R1 = student_denied_on_admin_route [where st = ?st and required = None and url = "''/admin''"
        and P = sample_platform and now = 1000000,
      THEN conjunct1, rule_format, OF conjI [OF s conjI [OF r q1]]]
  note R2 = student_denied_on_admin_route [where st = ?st and required = "Some ''teacher''"
        and url = "''/admin''" and P = sample_platform and now = 1000000,
      THEN conjunct1, rule_format, OF conjI [OF s conjI [OF r q2]]]
  note R3 = student_denied_on_admin_route [where st = ?st and required = "Some ''student''"
        and url = "''/admin''" and P = sample_platform and now = 1000000,
      THEN conjunct2, rule_format, OF conjI [OF a r]]
  show ?thesis using R1 R2 R3 n by simp
qed

section \<open>C6: a cached value and its time to live\<close>

lemma cache_after_set:
  "map_of (cache (set_cache now k v options st)) k =
     Some \<lparr>data = v, timestamp = int now,
           expiry = (if effective_ttl options > 0 then Some (int now + effective_ttl options) else None),
           key = k\<rparr>"
  by (simp add: set_cache_def Let_def update_conv')

lemma get_cache_live:
  "map_of (cache st) k = Some item \<Longrightarrow> \<not> isExpired now item \<Longrightarrow> get_cache now k st = (st, data item)"
  by (simp add: get_cache_def)

lemma has_cache_live:
  "map_of (cache st) k = Some item \<Longrightarrow> \<not> isExpired now item \<Longrightarrow> has_cache now k st = (st, True)"
  by (simp add: has_cache_def)

lemma delete_cache_keys: "k \<notin> set (keys (fst (delete_cache k st)))"
  using delete_notin_dom [of k "cache st"] by (simp add: delete_cache_def keys_def Let_def)

lemma get_cache_expired:
  "map_of (cache st) k = Some item \<Longrightarrow> isExpired now item \<Longrightarrow>
   get_cache now k st = (fst (delete_cache k st), JNull)"
  by (simp add: get_cache_def)

lemma has_cache_expired:
  "map_of (cache st) k = Some item \<Longrightarrow> isExpired now item \<Longrightarrow>
   has_cache now k st = (fst (delete_cache k st), False)"
  by (simp add: has_cache_def)

text \<open>
  C6, as the claim states it, fails: after \<^verbatim>\<open>set(k, v, {ttl: 0})\<close> at time 1000 the
  time to live of 0 ms has elapsed at time 1001, and still \<^verbatim>\<open>get(k)\<close> returns \<open>v\<close> and
  \<^verbatim>\<open>has(k)\<close> returns \<^verbatim>\<open>true\<close>: the entry lives for the default five minutes.
\<close>

theorem zero_ttl_still_cached:
  "snd (get_cache 1001 ''k''
          (set_cache 1000 ''k'' (JStr ''v'') \<lparr>ttl = Some 0, forceRefresh = None, persistent = None\<rparr>
             \<lparr>cache = [], cacheSubjects = []\<rparr>)) = JStr ''v'' \<and>
   snd (has_cache 1001 ''k''
          (set_cache 1000 ''k'' (JStr ''v'') \<lparr>ttl = Some 0, forceRefresh = None, persistent = None\<rparr>
             \<lparr>cache = [], cacheSubjects = []\<rparr>)) = True"
  by (simp add: get_cache_def has_cache_def set_cache_def effective_ttl_def defaultTTL_def
      isExpired_def notify_def Let_def)

text \<open>
  C6, amended. \<^verbatim>\<open>set(k, v, options)\<close> gives the entry the time to live
  \<^verbatim>\<open>options.ttl || 300000\<close>: five minutes when \<^verbatim>\<open>ttl\<close> is 0 or missing. An immediate
  \<^verbatim>\<open>get(k)\<close> returns \<open>v\<close>. With a positive time to live, \<^verbatim>\<open>get(k)\<close> returns \<open>v\<close> and
  \<^verbatim>\<open>has(k)\<close> returns \<^verbatim>\<open>true\<close> as long as the clock is at most the time of the
  \<^verbatim>\<open>set\<close> plus the time to live; once the clock is strictly greater, \<^verbatim>\<open>get(k)\<close>
  returns \<^verbatim>\<open>null\<close>, \<^verbatim>\<open>has(k)\<close> returns \<^verbatim>\<open>false\<close>, and the read removes the entry.
  With a negative \<^verbatim>\<open>ttl\<close> the entry never expires.
\<close>

theorem cache_entry_lives_for_effective_ttl:
  "(ttl options = Some 0 \<or> ttl options = None \<longrightarrow> effective_ttl options = 300000) \<and>
   (\<forall>t. ttl options = Some t \<and> t \<noteq> 0 \<longrightarrow> effective_ttl options = t) \<and>
   snd (get_cache now k (set_cache now k v options st)) = v \<and>
   (0 < effective_ttl options \<and> int later \<le> int now + effective_ttl options \<longrightarrow>
      snd (get_cache later k (set_cache now k v options st)) = v \<and>
      snd (has_cache later k (set_cache now k v options st)) = True) \<and>
   (0 < effective_ttl options \<and> int now + effective_ttl options < int later \<longrightarrow>
      snd (get_cache later k (set_cache now k v options st)) = JNull \<and>
      snd (has_cache later k (set_cache now k v options st)) = False \<and>
      k \<notin> set (keys (fst (get_cache later k (set_cache now k v options st)))) \<and>
      k \<notin> set (keys (fst (has_cache later k (set_cache now k v options st))))) \<and>
   (effective_ttl options < 0 \<longrightarrow>
      snd (get_cache later k (set_cache now k v options st)) = v \<and>
      snd (has_cache later k (set_cache now k v options st)) = True)"
proof -
  let ?st1 = "set_cache now k v options st"
  let ?item = "\<lparr>data = v, timestamp = int now,
           expiry = (if effective_ttl options > 0 then Some (int now + effective_ttl options) else None),
           key = k\<rparr>"
  have item: "map_of (cache ?st1) k = Some ?item" by (rule cache_after_set)
  have nz: "effective_ttl options \<noteq> 0" by (simp add: effective_ttl_def defaultTTL_def split: option.splits)
  have a: "ttl options = Some 0 \<or> ttl options = None \<longrightarrow> effective_ttl options = 300000"
    by (auto simp: effective_ttl_def defaultTTL_def)
  have b: "\<forall>t. ttl options = Some t \<and> t \<noteq> 0 \<longrightarrow> effective_ttl options = t"
    by (simp add: effective_ttl_def)
  have live_now: "\<not> isExpired now ?item" by (simp add: isExpired_def)
  have c: "snd (get_cache now k ?st1) = v"
    using get_cache_live [OF item live_now] by simp
  have d: "0 < effective_ttl options \<and> int later \<le> int now + effective_ttl options \<longrightarrow>
      snd (get_cache later k ?st1) = v \<and> snd (has_cache later k ?st1) = True"
  proof
    assume h: "0 < effective_ttl options \<and> int later \<le> int now + effective_ttl options"
    then have live: "\<not> isExpired later ?item" by (simp add: isExpired_def)
    show "snd (get_cache later k ?st1) = v \<and> snd (has_cache later k ?st1) = True"
      using get_cache_live [OF item live] has_cache_live [OF item live] by simp
  qed
  have e: "0 < effective_ttl options \<and> int now + effective_ttl options < int later \<longrightarrow>
      snd (get_cache later k ?st1) = JNull \<and> snd (has_cache later k ?st1) = False \<and>
      k \<notin> set (keys (fst (get_cache later k ?st1))) \<and>
      k \<notin> set (keys (fst (has_cache later k ?st1)))"
  proof
    assume h: "0 < effective_ttl options \<and> int now + effective_ttl options < int later"
    then have dead: "isExpired later ?item" by (simp add: isExpired_def)
    show "snd (get_cache later k ?st1) = JNull \<and> snd (has_cache later k ?st1) = False \<and>
      k \<notin> set (keys (fst (get_cache later k ?st1))) \<and>
      k \<notin> set (keys (fst (has_cache later k ?st1)))"
      using get_cache_expired [OF item dead] has_cache_expired [OF item dead]
        delete_cache_keys [of k ?st1] by simp
  qed
  have f: "effective_ttl options < 0 \<longrightarrow>
      snd (get_cache later k ?st1) = v \<and> snd (has_cache later k ?st1) = True"
  proof
    assume h: "effective_ttl options < 0"
    then have live: "\<not> isExpired later ?item" by (simp add: isExpired_def)
    show "snd (get_cache later k ?st1) = v \<and> snd (has_cache later k ?st1) = True"
      using get_cache_live [OF item live] has_cache_live [OF item live] by simp
  qed
  show ?thesis using a b c d e f by blast
qed

theorem cache_entry_lives_for_effective_ttl_witness:
  "snd (get_cache 1000 ''k''
          (set_cache 1000 ''k'' (JStr ''v'') \<lparr>ttl = Some 0, forceRefresh = None, persistent = None\<rparr>
             \<lparr>cache = [], cacheSubjects = []\<rparr>)) = JStr ''v'' \<and>
   snd (get_cache 301000 ''k''
          (set_cache 1000 ''k'' (JStr ''v'') \<lparr>ttl = Some 0, forceRefresh = None, persistent = None\<rparr>
             \<lparr>cache = [], cacheSubjects = []\<rparr>)) = JStr ''v'' \<and>
   snd (get_cache 301001 ''k''
          (set_cache 1000 ''k'' (JStr ''v'') \<lparr>ttl = Some 0, forceRefresh = None, persistent = None\<rparr>
             \<lparr>cache = [], cacheSubjects = []\<rparr>)) = JNull \<and>
   snd (has_cache 301001 ''k''
          (set_cache 1000 ''k'' (JStr ''v'') \<lparr>ttl = Some 0, forceRefresh = None, persistent = None\<rparr>
             \<lparr>cache = [], cacheSubjects = []\<rparr>)) = False"
proof -
  let ?o = "\<lparr>ttl = Some 0, forceRefresh = None, persistent = None\<rparr>"
  let ?st = "\<lparr>cache = [], cacheSubjects = []\<rparr>"
  have z: "ttl ?o = Some 0 \<or> ttl ?o = None" by simp
  have eff: "effective_ttl ?o = 300000"
    using cache_entry_lives_for_effective_ttl [of ?o 1000 "''k''" "JStr ''v''" ?st 301000] z by blast
  have l1: "0 < effective_ttl ?o \<and> int 301000 \<le> int 1000 + effective_ttl ?o" using eff by simp
  have l2: "0 < effective_ttl ?o \<and> int 1000 + effective_ttl ?o < int 301001" using eff by simp
  show ?thesis
    using cache_entry_lives_for_effective_ttl [of ?o 1000 "''k''" "JStr ''v''" ?st 301000] l1
      cache_entry_lives_for_effective_ttl [of ?o 1000 "''k''" "JStr ''v''" ?st 301001] l2
    by blast
qed

section \<open>C7: clearing the cache\<close>

lemma emissions_clear:
  "emissions (clear_cache st) k = map_option (\<lambda>emitted. emitted @ [JNull]) (emissions st k)"
  by (simp add: emissions_def clear_cache_def map_of_map)

lemma emissions_watch: "emissions (watch now k st) k \<noteq> None"
proof (cases "map_of (cacheSubjects st) k")
  case None
  then show ?thesis
    by (simp add: emissions_def watch_def update_conv' split: prod.splits)
next
  case (Some a)
  then show ?thesis by (simp add: emissions_def watch_def)
qed

text \<open>
  C7. After \<^verbatim>\<open>clear()\<close>, \<^verbatim>\<open>keys()\<close> is empty (and \<^verbatim>\<open>get\<close> finds nothing), and every
  subject created by \<^verbatim>\<open>watch\<close> has emitted \<^verbatim>\<open>null\<close> as its last value, after all it
  had emitted before: every subscriber of \<^verbatim>\<open>watch(key)\<close> receives \<^verbatim>\<open>null\<close>. A key
  watched just before the \<^verbatim>\<open>clear()\<close> is among them.
\<close>

theorem clear_empties_keys_and_notifies:
  "keys (clear_cache st) = [] \<and>
   snd (get_cache now k (clear_cache st)) = JNull \<and>
   (\<forall>emitted. emissions st k = Some emitted \<longrightarrow>
      emissions (clear_cache st) k = Some (emitted @ [JNull])) \<and>
   (\<exists>emitted. emissions (clear_cache (watch now k st)) k = Some (emitted @ [JNull]))"
proof -
  have a: "keys (clear_cache st) = []" by (simp add: keys_def clear_cache_def)
  have b: "snd (get_cache now k (clear_cache st)) = JNull" by (simp add: get_cache_def clear_cache_def)
  have c: "\<forall>emitted. emissions st k = Some emitted \<longrightarrow>
      emissions (clear_cache st) k = Some (emitted @ [JNull])"
    by (simp add: emissions_clear)
  obtain emitted where w: "emissions (watch now k st) k = Some emitted"
    using emissions_watch [of now k st] by auto
  then have d: "\<exists>emitted. emissions (clear_cache (watch now k st)) k = Some (emitted @ [JNull])"
    by (simp add: emissions_clear)
  show ?thesis using a b c d by blast
qed

theorem clear_empties_keys_and_notifies_witness:
  "keys (clear_cache (watch 1000 ''k''
      (set_cache 1000 ''k'' (JStr ''v'') \<lparr>ttl = None, forceRefresh = None, persistent = None\<rparr>
         \<lparr>cache = [], cacheSubjects = []\<rparr>))) = [] \<and>
   emissions (clear_cache (watch 1000 ''k''
      (set_cache 1000 ''k'' (JStr ''v'') \<lparr>ttl = None, forceRefresh = None, persistent = None\<rparr>
         \<lparr>cache = [], cacheSubjects = []\<rparr>))) ''k'' = Some [JStr ''v'', JNull]"
proof -
  let ?st = "watch 1000 ''k''
      (set_cache 1000 ''k'' (JStr ''v'') \<lparr>ttl = None, forceRefresh = None, persistent = None\<rparr>
         \<lparr>cache = [], cacheSubjects = []\<rparr>)"
  have e: "emissions ?st ''k'' = Some [JStr ''v'']"
    by (simp add: emissions_def watch_def get_cache_def set_cache_def effective_ttl_def defaultTTL_def
        isExpired_def notify_def Let_def)
  show ?thesis
    using clear_empties_keys_and_notifies [of ?st 1000 "''k''"] e by simp
qed

section \<open>C8: what the resource clients rethrow\<close>

lemma toString10_not_empty: "toString10 n \<noteq> []"
  by (subst toString10.simps) simp

lemma or_else_not_empty: "d \<noteq> [] \<Longrightarrow> or_else a d \<noteq> []"
  by (simp add: or_else_def split: option.splits)

lemma message_of_error_not_empty: "message_of_error err \<noteq> []"
  by (simp add: message_of_error_def or_else_not_empty)

lemma message_of_error_of_message:
  "m \<noteq> [] \<Longrightarrow>
     message_of_error \<lparr>err_payload = NoPayload, err_status = None, err_message = Some m\<rparr> = m"
  unfolding message_of_error_def by (simp add: or_else_def)

text \<open>
  The handler of \<^verbatim>\<open>TeacherService\<close>, \<^verbatim>\<open>StudentService\<close> and the first \<^verbatim>\<open>SubjectService\<close>,
  handed the error it has thrown itself, throws an error with the same message.
\<close>

lemma message_of_error_again:
  "message_of_error (as_value (ErrorObject (message_of_error err))) = message_of_error err"
  unfolding as_value.simps
  by (rule message_of_error_of_message [OF message_of_error_not_empty])












end
